theory Spec2Isabelle
  imports Main "HOL-Library.AList" "HOL-Library.Char_ord" "HOL-Library.List_Lexorder"
    "HOL-Library.Multiset"
    "HOL-Library.Product_Lexorder"
begin

section \<open>Witcher Tracker: characters and strings\<close>

text \<open>
  A shallow embedding of \<^verbatim>\<open>src/CommandParser.cpp\<close>, \<^verbatim>\<open>src/WitcherTracker.cpp\<close>,
  \<^verbatim>\<open>src/Inventory.cpp\<close>, \<^verbatim>\<open>src/AlchemyKnowledge.cpp\<close>, \<^verbatim>\<open>src/Bestiary.cpp\<close>,
  \<^verbatim>\<open>src/Beast.cpp\<close> and the loop body of \<^verbatim>\<open>src/main.cpp\<close>.
  A C++ string is a \<^typ>\<open>string\<close> (a list of bytes) and a vector of strings is a
  \<^typ>\<open>string list\<close>. The parser walks its input with an index \<^verbatim>\<open>i\<close> that only moves
  forward; the model passes the remaining input \<^verbatim>\<open>input.substr(i)\<close> instead of the index.
\<close>

text \<open>
  The character classes of the C library in the "C" locale (the program never changes the
  locale). Bytes outside ASCII belong to none of them.
\<close>

definition isspace :: "char \<Rightarrow> bool" where
  "isspace c = (c \<in> set [CHR '' '', CHR 0x09, CHR 0x0A, CHR 0x0B, CHR 0x0C, CHR 0x0D])"

definition isdigit :: "char \<Rightarrow> bool" where
  "isdigit c = (c \<in> set ''0123456789'')"

definition isalpha :: "char \<Rightarrow> bool" where
  "isalpha c = (c \<in> set ''ABCDEFGHIJKLMNOPQRSTUVWXYZabcdefghijklmnopqrstuvwxyz'')"

text \<open>\<^verbatim>\<open>while (i < inputLen && isspace(input[i])) i++;\<close>\<close>

definition skip_ws :: "string \<Rightarrow> string" where
  "skip_ws s = dropWhile isspace s"

text \<open>
  The whole-word test
  \<^verbatim>\<open>i < inputLen && input.substr(i, n) == kw && (i + n >= inputLen || isspace(input[i + n]))\<close>
  on the remaining input \<open>s\<close>, for a nonempty keyword \<open>kw\<close> of length \<open>n\<close>.
\<close>

definition at_word :: "string \<Rightarrow> string \<Rightarrow> bool" where
  "at_word kw s =
     (take (length kw) s = kw \<and>
      (case drop (length kw) s of [] \<Rightarrow> True | c # _ \<Rightarrow> isspace c))"

text \<open>
  \<^verbatim>\<open>while (end > start && isspace(input[end - 1])) end--;\<close> on the substring between
  \<^verbatim>\<open>start\<close> and \<^verbatim>\<open>end\<close>.
\<close>

definition rstrip :: "string \<Rightarrow> string" where
  "rstrip s = rev (dropWhile isspace (rev s))"

text \<open>A character that ends a word of the generic tokenizer: whitespace or a comma.\<close>

definition word_char :: "char \<Rightarrow> bool" where
  "word_char c = (c \<noteq> CHR '','' \<and> \<not> isspace c)"

section \<open>The tokenizer\<close>

text \<open>
  The generic loop (lines 601 to 627 of \<^verbatim>\<open>CommandParser.cpp\<close>; the same loop is written
  out after every question mark and in the \<^verbatim>\<open>trades\<close> branch): skip whitespace, stop at
  the end, emit a comma as a token of its own, otherwise emit the maximal run of characters
  that are neither whitespace nor a comma. The first character \<open>c\<close> of that run is neither
  (whitespace was skipped, the comma was tested), so the run is never empty.
\<close>

function generic_tokens :: "string \<Rightarrow> string list" where
  "generic_tokens s =
     (case dropWhile isspace s of
        [] \<Rightarrow> []
      | c # r \<Rightarrow>
          if c = CHR '','' then '','' # generic_tokens r
          else (c # takeWhile word_char r) # generic_tokens (dropWhile word_char r))"
  by pat_completeness auto
termination
proof (relation "measure length")
  show "wf (measure length)" by simp
next
  fix s :: string and c r
  assume "dropWhile isspace s = c # r"
  then have "length s \<ge> Suc (length r)"
    by (metis length_Cons length_dropWhile_le)
  then show "(r, s) \<in> measure length" by simp
next
  fix s :: string and c r
  assume "dropWhile isspace s = c # r"
  then have "length s \<ge> Suc (length r)"
    by (metis length_Cons length_dropWhile_le)
  moreover have "length (dropWhile word_char r) \<le> length r"
    by (rule length_dropWhile_le)
  ultimately show "(dropWhile word_char r, s) \<in> measure length" by simp
qed

text \<open>
  Name capture up to a question mark (lines 58 to 116, 136 to 194 and 263 to 319): the name
  runs from the current position to the first \<^verbatim>\<open>?\<close> (or the end of the line), with
  trailing whitespace trimmed; it is pushed when nonempty. A \<^verbatim>\<open>?\<close>, when there is one,
  is pushed and what follows is tokenized by the generic loop.
\<close>

definition capture_until_q :: "string \<Rightarrow> string list" where
  "capture_until_q s =
     (let name = rstrip (takeWhile (\<lambda>c. c \<noteq> CHR ''?'') s) in
      (if name = [] then [] else [name]) @
      (case dropWhile (\<lambda>c. c \<noteq> CHR ''?'') s of
         [] \<Rightarrow> []
       | _ # r \<Rightarrow> ''?'' # generic_tokens r))"

text \<open>
  The \<^verbatim>\<open>What\<close> branch (lines 32 to 199). It either returns the finished token sequence
  (\<open>Inl\<close>), or falls out of the nested conditions with the tokens pushed so far and the
  position reached (\<open>Inr\<close>).
\<close>

definition what_branch :: "string \<Rightarrow> string list + (string list \<times> string)" where
  "what_branch s0 =
     (if at_word ''What'' s0 then
        let s1 = skip_ws (drop 4 s0) in
        if at_word ''is'' s1 then
          let s2 = skip_ws (drop 2 s1) in
          if at_word ''in'' s2 then
            Inl ([''What'', ''is'', ''in''] @ capture_until_q (skip_ws (drop 2 s2)))
          else if at_word ''effective'' s2 then
            let s3 = skip_ws (drop 9 s2) in
            if at_word ''against'' s3 then
              Inl ([''What'', ''is'', ''effective'', ''against'']
                   @ capture_until_q (skip_ws (drop 7 s3)))
            else Inr ([''What'', ''is'', ''effective''], s3)
          else Inr ([''What'', ''is''], s2)
        else Inr ([''What''], s1)
      else Inr ([], s0))"

text \<open>
  The \<^verbatim>\<open>Total\<close> branch (lines 205 to 320), entered at position \<open>s\<close> with the tokens
  \<open>toks\<close> pushed so far.
\<close>

definition total_branch :: "string list \<Rightarrow> string \<Rightarrow> string list" where
  "total_branch toks s =
     (let s1 = skip_ws (drop 5 s);
          cat = takeWhile (\<lambda>c. \<not> isspace c \<and> c \<noteq> CHR ''?'') s1;
          s2 = dropWhile (\<lambda>c. \<not> isspace c \<and> c \<noteq> CHR ''?'') s1;
          toks1 = toks @ [''Total''] @ (if cat = [] then [] else [cat]);
          s3 = skip_ws s2
      in case s3 of
           [] \<Rightarrow> toks1
         | c # r \<Rightarrow>
             if c = CHR ''?'' then toks1 @ [''?''] @ generic_tokens r
             else toks1 @ capture_until_q (skip_ws s3))"

text \<open>
  The ingredient loop of the \<^verbatim>\<open>learns ... consists of\<close> branch (lines 475 to 546).
\<close>

function formula_loop :: "string \<Rightarrow> string list" where
  "formula_loop s =
     (case dropWhile isspace s of
        [] \<Rightarrow> []
      | c # r \<Rightarrow>
          if isdigit c then
            (let s2 = skip_ws (dropWhile isdigit r);
                 name = takeWhile word_char s2;
                 s4 = skip_ws (dropWhile word_char s2)
             in (c # takeWhile isdigit r) # (if name = [] then [] else [name]) @
                (case s4 of
                   [] \<Rightarrow> []
                 | d # r4 \<Rightarrow> if d = CHR '','' then '','' # formula_loop r4 else formula_loop s4))
          else
            (let word = takeWhile word_char (c # r);
                 s2 = skip_ws (dropWhile word_char (c # r))
             in (if word = [] then [] else [word]) @
                (case s2 of
                   [] \<Rightarrow> []
                 | d # r2 \<Rightarrow> if d = CHR '','' then '','' # formula_loop r2 else formula_loop s2)))"
  by pat_completeness auto
termination
proof (relation "measure length")
  show "wf (measure length)" by simp
next
  fix s :: string and c r s2 name s4 d r4
  assume a: "dropWhile isspace s = c # r" and b: "s4 = skip_ws (dropWhile word_char s2)"
    and c: "s2 = skip_ws (dropWhile isdigit r)" and d: "s4 = d # r4"
  have "length s4 \<le> length r"
    unfolding b c skip_ws_def
    by (meson length_dropWhile_le order_trans)
  moreover have "length s \<ge> Suc (length r)"
    using a by (metis length_Cons length_dropWhile_le)
  ultimately show "(r4, s) \<in> measure length" using d by simp
next
  fix s :: string and c r s2 name s4 d r4
  assume a: "dropWhile isspace s = c # r" and b: "s4 = skip_ws (dropWhile word_char s2)"
    and c: "s2 = skip_ws (dropWhile isdigit r)"
  have "length s4 \<le> length r"
    unfolding b c skip_ws_def
    by (meson length_dropWhile_le order_trans)
  moreover have "length s \<ge> Suc (length r)"
    using a by (metis length_Cons length_dropWhile_le)
  ultimately show "(s4, s) \<in> measure length" by simp
next
  fix s :: string and c r word s2 d r2
  assume a: "dropWhile isspace s = c # r"
    and b: "s2 = skip_ws (dropWhile word_char (c # r))" and d: "s2 = d # r2"
  have "length s2 \<le> Suc (length r)"
    unfolding b skip_ws_def
    by (metis length_Cons length_dropWhile_le order_trans)
  moreover have "length s \<ge> Suc (length r)"
    using a by (metis length_Cons length_dropWhile_le)
  ultimately show "(r2, s) \<in> measure length" using d by simp
next
  fix s :: string and c r word s2 d r2
  assume a: "dropWhile isspace s = c # r"
    and b: "s2 = skip_ws (dropWhile word_char (c # r))" and d: "s2 = d # r2"
    and e: "d \<noteq> CHR '',''"
  have nsp: "\<not> isspace c"
    using a by (metis hd_dropWhile list.distinct(1) list.sel(1))
  have "c \<noteq> CHR '',''"
  proof
    assume "c = CHR '',''"
    then have "dropWhile word_char (c # r) = c # r" by (simp add: word_char_def)
    then have "s2 = c # r" using nsp by (simp add: b skip_ws_def)
    then show False using d e \<open>c = CHR '',''\<close> by simp
  qed
  then have "dropWhile word_char (c # r) = dropWhile word_char r"
    using nsp by (simp add: word_char_def)
  then have "length s2 \<le> length r"
    unfolding b skip_ws_def
    by (metis length_dropWhile_le order_trans)
  moreover have "length s \<ge> Suc (length r)"
    using a by (metis length_Cons length_dropWhile_le)
  ultimately show "(s2, s) \<in> measure length" by simp
qed

text \<open>
  After the name and the keyword \<^verbatim>\<open>sign\<close> or \<^verbatim>\<open>potion\<close> have been pushed (line 411):
  first \<^verbatim>\<open>is effective against\<close> (lines 413 to 452), whose keywords stay pushed when the
  chain breaks off, then, from the position right after the keyword again (line 455),
  \<^verbatim>\<open>consists of\<close> (lines 456 to 549); line 552 returns whatever was pushed.
\<close>

definition formula_part :: "string list \<Rightarrow> string \<Rightarrow> string list" where
  "formula_part toks rest =
     (let a = skip_ws rest in
      if at_word ''consists'' a then
        let b = skip_ws (drop 8 a) in
        if at_word ''of'' b then toks @ [''consists'', ''of''] @ formula_loop (drop 2 b)
        else toks @ [''consists'']
      else toks)"

definition learns_tail :: "string list \<Rightarrow> string \<Rightarrow> string list" where
  "learns_tail toks rest =
     (let a = skip_ws rest in
      if at_word ''is'' a then
        let b = skip_ws (drop 2 a) in
        if at_word ''effective'' b then
          let c = skip_ws (drop 9 b) in
          if at_word ''against'' c then
            let d = skip_ws (drop 7 c) in
            toks @ [''is'', ''effective'', ''against''] @ (if d = [] then [] else [d])
          else formula_part (toks @ [''is'', ''effective'']) rest
        else formula_part (toks @ [''is'']) rest
      else formula_part toks rest)"

text \<open>
  Trimming at both ends (lines 403 to 406): the start moves right over whitespace, then the
  end moves left.
\<close>

definition strip_both :: "string \<Rightarrow> string" where
  "strip_both s = rstrip (dropWhile isspace s)"

text \<open>
  The word scan of the \<^verbatim>\<open>learns\<close> branch (lines 373 to 555). \<open>scanned\<close> is the input
  between \<^verbatim>\<open>learnsStartPos\<close> and the current position, \<open>n\<close> the size of
  \<^verbatim>\<open>tempTokens\<close>. A word is a maximal run of non-whitespace characters and is never
  empty, so the \<^verbatim>\<open>break\<close> of line 387 is never taken.
\<close>

function learns_scan :: "string list \<Rightarrow> string \<Rightarrow> nat \<Rightarrow> string \<Rightarrow> string list" where
  "learns_scan toks scanned n s =
     (case dropWhile isspace s of
        [] \<Rightarrow> toks
      | c # r \<Rightarrow>
          let word = c # takeWhile (\<lambda>x. \<not> isspace x) r;
              rest = dropWhile (\<lambda>x. \<not> isspace x) r
          in if word = ''sign'' \<or> word = ''potion'' then
               (if 2 \<le> Suc n then
                  let raw = strip_both (scanned @ takeWhile isspace s) in
                  if raw \<noteq> [] then learns_tail (toks @ [raw, word]) rest else toks
                else toks)
             else learns_scan toks (scanned @ takeWhile isspace s @ word) (Suc n) rest)"
  by pat_completeness auto
termination
proof (relation "measure (\<lambda>(toks, scanned, n, s). length s)")
  show "wf (measure (\<lambda>(toks, scanned, n, s). length s))" by simp
next
  fix toks :: "string list" and scanned :: string and n :: nat and s :: string
    and c r word rest
  assume a: "dropWhile isspace s = c # r" and b: "rest = dropWhile (\<lambda>x. \<not> isspace x) r"
  have "length rest \<le> length r"
    unfolding b by (rule length_dropWhile_le)
  moreover have "length s \<ge> Suc (length r)"
    using a by (metis length_Cons length_dropWhile_le)
  ultimately show "((toks, scanned @ takeWhile isspace s @ word, Suc n, rest), (toks, scanned, n, s))
      \<in> measure (\<lambda>(toks, scanned, n, s). length s)" by simp
qed

text \<open>
  The \<^verbatim>\<open>Geralt\<close> branch (lines 329 to 595), entered at the first non-whitespace character
  of the line. \<open>None\<close>: no sub-branch returned, control reaches the generic fallback.
\<close>

definition geralt_branch :: "string list \<Rightarrow> string \<Rightarrow> string list option" where
  "geralt_branch toks s0 =
     (if at_word ''Geralt'' s0 then
        let toks1 = toks @ [''Geralt'']; s1 = skip_ws (drop 6 s0) in
        if at_word ''brews'' s1 then
          let s2 = skip_ws (drop 5 s1) in
          Some (toks1 @ [''brews''] @ (if s2 = [] then [] else [s2]))
        else if at_word ''learns'' s1 then
          Some (learns_scan (toks1 @ [''learns'']) [] 0 (skip_ws (drop 6 s1)))
        else if at_word ''trades'' s1 then
          Some (toks1 @ [''trades''] @ generic_tokens (drop 6 s1))
        else None
      else None)"

text \<open>
  \<^verbatim>\<open>CommandParser::tokenizeInput\<close>. The \<^verbatim>\<open>Total\<close> test runs at the position the
  \<^verbatim>\<open>What\<close> branch left behind; the \<^verbatim>\<open>Geralt\<close> test starts again at the first
  non-whitespace character (line 324); the fallback clears the tokens and starts again at
  index 0 (line 598).
\<close>

definition tokenizeInput :: "string \<Rightarrow> string list" where
  "tokenizeInput input =
     (let s0 = skip_ws input in
      case what_branch s0 of
        Inl toks \<Rightarrow> toks
      | Inr (toks, s) \<Rightarrow>
          if at_word ''Total'' s then total_branch toks s
          else case geralt_branch toks s0 of
                 Some toks' \<Rightarrow> toks'
               | None \<Rightarrow> generic_tokens input)"

text \<open>\<^verbatim>\<open>CommandParser::cleanInputLine\<close>.\<close>

definition cleanInputLine :: "string \<Rightarrow> string" where
  "cleanInputLine input =
     (let cleaned = (if input \<noteq> [] \<and> last input = CHR 0x0A then butlast input else input)
      in rstrip (dropWhile isspace cleaned))"

section \<open>Failures\<close>

text \<open>
  What the C++ does beyond returning a value: \<^verbatim>\<open>std::stoi\<close> throws
  \<^verbatim>\<open>std::out_of_range\<close> or \<^verbatim>\<open>std::invalid_argument\<close> (nothing in the program catches
  them, so the process terminates), and reading a vector element at or past its size is
  undefined behaviour.
\<close>

datatype error = OutOfRange | InvalidArgument | OutOfBounds

definition INT_MAX :: int where
  "INT_MAX = 2147483647"

definition INT_MIN :: int where
  "INT_MIN = - 2147483648"

definition digit_val :: "char \<Rightarrow> int" where
  "digit_val c = int (of_char c) - 48"

definition decimal :: "string \<Rightarrow> int" where
  "decimal ds = foldl (\<lambda>a c. 10 * a + digit_val c) 0 ds"

text \<open>
  \<^verbatim>\<open>std::stoi(token)\<close> in base 10 with a 32-bit \<^verbatim>\<open>int\<close>: leading whitespace is skipped,
  a sign is optional, the longest run of digits is converted and what follows is ignored.
\<close>

definition stoi :: "string \<Rightarrow> error + int" where
  "stoi s =
     (let s1 = dropWhile isspace s;
          neg = (s1 \<noteq> [] \<and> hd s1 = CHR ''-'');
          s2 = (if s1 \<noteq> [] \<and> (hd s1 = CHR ''-'' \<or> hd s1 = CHR ''+'') then tl s1 else s1);
          ds = takeWhile isdigit s2
      in if ds = [] then Inl InvalidArgument
         else let v = (if neg then - decimal ds else decimal ds)
              in if v < INT_MIN \<or> INT_MAX < v then Inl OutOfRange else Inr v)"

text \<open>A read \<^verbatim>\<open>tokens[i]\<close> that no size test guards.\<close>

definition tok_at :: "string list \<Rightarrow> nat \<Rightarrow> error + string" where
  "tok_at tokens i = (if i < length tokens then Inr (tokens ! i) else Inl OutOfBounds)"

section \<open>Shared predicates of the validator\<close>

text \<open>\<^verbatim>\<open>CommandParser::isPositiveInteger\<close> (lines 675 to 693).\<close>

definition isPositiveInteger :: "string \<Rightarrow> error + bool" where
  "isPositiveInteger token =
     (if token = [] then Inr False
      else if hd token = CHR ''0'' \<and> 1 < length token then Inr False
      else if \<not> list_all isdigit token then Inr False
      else case stoi token of Inl e \<Rightarrow> Inl e | Inr v \<Rightarrow> Inr (0 < v))"

definition isAlphabeticOnly :: "string \<Rightarrow> bool" where
  "isAlphabeticOnly token = (token \<noteq> [] \<and> list_all isalpha token)"

text \<open>
  \<^verbatim>\<open>CommandParser::hasCommaSpacingError\<close> (lines 721 to 744): some comma token is first,
  last or next to another comma.
\<close>

definition hasCommaSpacingError :: "string list \<Rightarrow> bool" where
  "hasCommaSpacingError tokens =
     list_ex (\<lambda>i. tokens ! i = '','' \<and>
                  (i = 0 \<or> i = length tokens - 1 \<or>
                   (0 < i \<and> tokens ! (i - 1) = '','') \<or>
                   (i < length tokens - 1 \<and> tokens ! (i + 1) = '','')))
             [0..<length tokens]"

text \<open>
  The character loop of \<^verbatim>\<open>isValidPotionNameToken\<close> (lines 760 to 776) and of
  \<^verbatim>\<open>isBrewAction\<close> (lines 992 to 1008), with the flag \<^verbatim>\<open>lastWasSpace\<close>.
\<close>

fun name_chars_ok :: "bool \<Rightarrow> string \<Rightarrow> bool" where
  "name_chars_ok lastWasSpace [] = True"
| "name_chars_ok lastWasSpace (c # cs) =
     (if c = CHR '' '' then (if lastWasSpace then False else name_chars_ok True cs)
      else if \<not> isalpha c then False
      else name_chars_ok False cs)"

definition isValidPotionNameToken :: "string \<Rightarrow> bool" where
  "isValidPotionNameToken token = (token \<noteq> [] \<and> name_chars_ok False token)"

section \<open>The ten shape checkers\<close>

text \<open>
  Every checker starts with \<^verbatim>\<open>auto tokens = tokenizeInput(input)\<close>; the model splits each
  into the check of the token sequence and the call on the input.
\<close>

text \<open>The loop of \<^verbatim>\<open>isLootAction\<close> (lines 804 to 826) from \<^verbatim>\<open>tokenIndex = i\<close>.\<close>

function loot_loop :: "string list \<Rightarrow> nat \<Rightarrow> error + bool" where
  "loot_loop tokens i =
     (if i < length tokens then
        (case isPositiveInteger (tokens ! i) of
           Inl e \<Rightarrow> Inl e
         | Inr ok \<Rightarrow>
             if \<not> ok then Inr False
             else if length tokens \<le> i + 1 \<or> \<not> isAlphabeticOnly (tokens ! (i + 1)) then Inr False
             else if i + 2 < length tokens then
               (if tokens ! (i + 2) = '','' then
                  (if length tokens \<le> i + 3 then Inr False else loot_loop tokens (i + 3))
                else loot_loop tokens (i + 2))
             else loot_loop tokens (i + 2))
      else Inr True)"
  by pat_completeness auto
termination
  by (relation "measure (\<lambda>(tokens, i). length tokens - i)") auto

definition loot_tokens :: "string list \<Rightarrow> error + bool" where
  "loot_tokens tokens =
     (if hasCommaSpacingError tokens then Inr False
      else if length tokens < 4 then Inr False
      else if tokens ! 0 \<noteq> ''Geralt'' \<or> tokens ! 1 \<noteq> ''loots'' then Inr False
      else loot_loop tokens 2)"

definition isLootAction :: "string \<Rightarrow> error + bool" where
  "isLootAction input = loot_tokens (tokenizeInput input)"

text \<open>
  The trophy loop of \<^verbatim>\<open>isTradeAction\<close> (lines 868 to 903); its result is the flag
  \<^verbatim>\<open>lastTrophyHasKeyword\<close> tested at line 905, or \<open>False\<close> where the loop returns false.
\<close>

function trade_trophy_loop ::
    "string list \<Rightarrow> nat \<Rightarrow> nat \<Rightarrow> bool \<Rightarrow> bool \<Rightarrow> error + bool" where
  "trade_trophy_loop tokens forIndex i expectingQuantity lastTrophyHasKeyword =
     (if i < forIndex then
        (if expectingQuantity then
           (case isPositiveInteger (tokens ! i) of
              Inl e \<Rightarrow> Inl e
            | Inr ok \<Rightarrow>
                if \<not> ok then Inr False
                else trade_trophy_loop tokens forIndex (i + 1) False lastTrophyHasKeyword)
         else if \<not> isAlphabeticOnly (tokens ! i) then Inr False
         else if i + 1 < forIndex \<and> tokens ! (i + 1) = ''trophy'' \<and> i + 2 = forIndex then
           trade_trophy_loop tokens forIndex (i + 2) expectingQuantity True
         else if i + 1 < forIndex \<and> tokens ! (i + 1) = '','' then
           trade_trophy_loop tokens forIndex (i + 2) True lastTrophyHasKeyword
         else Inr False)
      else Inr lastTrophyHasKeyword)"
  by pat_completeness auto
termination
  by (relation "measure (\<lambda>(tokens, forIndex, i, e, l). forIndex - i)") auto

text \<open>
  The ingredient loop of \<^verbatim>\<open>isTradeAction\<close> (lines 912 to 958) with the test of line 961
  behind it.
\<close>

function trade_ingredient_loop :: "string list \<Rightarrow> nat \<Rightarrow> bool \<Rightarrow> error + bool" where
  "trade_ingredient_loop tokens i expectingQuantity =
     (if i < length tokens then
        (if expectingQuantity then
           (case isPositiveInteger (tokens ! i) of
              Inl e \<Rightarrow> Inl e
            | Inr ok \<Rightarrow>
                if \<not> ok then Inr False
                else if i + 1 = length tokens then Inr False
                else trade_ingredient_loop tokens (i + 1) False)
         else if \<not> isAlphabeticOnly (tokens ! i) then Inr False
         else if i + 1 = length tokens then Inr (\<not> expectingQuantity)
         else if tokens ! (i + 1) = '','' then
           (if i + 2 = length tokens then Inr False
            else trade_ingredient_loop tokens (i + 2) True)
         else Inr False)
      else Inr (\<not> expectingQuantity))"
  by pat_completeness auto
termination
  by (relation "measure (\<lambda>(tokens, i, e). length tokens - i)") auto

text \<open>
  The search for the first \<^verbatim>\<open>for\<close> from index 2 (lines 850 to 858); \<open>None\<close> is the
  \<^verbatim>\<open>-1\<close> of the source.
\<close>

definition find_for :: "string list \<Rightarrow> nat option" where
  "find_for tokens = find (\<lambda>i. tokens ! i = ''for'') [2..<length tokens]"

definition trade_tokens :: "string list \<Rightarrow> error + bool" where
  "trade_tokens tokens =
     (if hasCommaSpacingError tokens then Inr False
      else if length tokens < 2 \<or> tokens ! 0 \<noteq> ''Geralt'' \<or> tokens ! 1 \<noteq> ''trades'' then Inr False
      else case find_for tokens of
             None \<Rightarrow> Inr False
           | Some forIndex \<Rightarrow>
               if forIndex \<le> 4 \<or> int (length tokens) - 2 \<le> int forIndex then Inr False
               else (case trade_trophy_loop tokens forIndex 2 True False of
                       Inl e \<Rightarrow> Inl e
                     | Inr lastTrophyHasKeyword \<Rightarrow>
                         if \<not> lastTrophyHasKeyword then Inr False
                         else trade_ingredient_loop tokens (forIndex + 1) True))"

definition isTradeAction :: "string \<Rightarrow> error + bool" where
  "isTradeAction input = trade_tokens (tokenizeInput input)"

text \<open>\<^verbatim>\<open>isBrewAction\<close> (lines 976 to 1011).\<close>

definition brew_tokens :: "string list \<Rightarrow> bool" where
  "brew_tokens tokens =
     (if length tokens < 3 then False
      else if tokens ! 0 \<noteq> ''Geralt'' \<or> tokens ! 1 \<noteq> ''brews'' then False
      else name_chars_ok False (tokens ! 2))"

definition isBrewAction :: "string \<Rightarrow> bool" where
  "isBrewAction input = brew_tokens (tokenizeInput input)"

text \<open>
  \<^verbatim>\<open>isEffectivenessKnowledge\<close> (lines 1020 to 1055). The size test of line 1025 covers the
  indices 0 to 4; \<^verbatim>\<open>tokens[5]\<close> and \<^verbatim>\<open>tokens[6]\<close> at lines 1036 and 1037 are read
  before the size is compared with 8.
\<close>

definition effectiveness_tokens :: "string list \<Rightarrow> error + bool" where
  "effectiveness_tokens tokens =
     (if length tokens < 5 \<or> tokens ! 0 \<noteq> ''Geralt'' \<or> tokens ! 1 \<noteq> ''learns'' then Inr False
      else if \<not> (tokens ! 3 = ''potion'' \<or> tokens ! 3 = ''sign'') then Inr False
      else if tokens ! 4 \<noteq> ''is'' then Inr False
      else case tok_at tokens 5 of
             Inl e \<Rightarrow> Inl e
           | Inr t5 \<Rightarrow>
               if t5 \<noteq> ''effective'' then Inr False
               else (case tok_at tokens 6 of
                       Inl e \<Rightarrow> Inl e
                     | Inr t6 \<Rightarrow>
                         if t6 \<noteq> ''against'' then Inr False
                         else if length tokens \<noteq> 8 \<or> \<not> isAlphabeticOnly (tokens ! 7) then Inr False
                         else if tokens ! 3 = ''sign'' then Inr (isAlphabeticOnly (tokens ! 2))
                         else Inr (isValidPotionNameToken (tokens ! 2))))"

definition isEffectivenessKnowledge :: "string \<Rightarrow> error + bool" where
  "isEffectivenessKnowledge input = effectiveness_tokens (tokenizeInput input)"

text \<open>
  The keyword search of \<^verbatim>\<open>isPotionFormulaKnowledge\<close> (lines 1086 to 1095): one pass over
  the indices from 2 with the three index variables, \<open>None\<close> for \<^verbatim>\<open>-1\<close>.
\<close>

definition keyword_step ::
    "string list \<Rightarrow> nat option \<times> nat option \<times> nat option \<Rightarrow> nat
      \<Rightarrow> nat option \<times> nat option \<times> nat option" where
  "keyword_step tokens st i =
     (case st of (potionIndex, consistsIndex, ofIndex) \<Rightarrow>
        if potionIndex = None \<and> tokens ! i = ''potion'' then (Some i, consistsIndex, ofIndex)
        else if consistsIndex = None \<and> tokens ! i = ''consists'' then (potionIndex, Some i, ofIndex)
        else if ofIndex = None \<and> tokens ! i = ''of'' then (potionIndex, consistsIndex, Some i)
        else (potionIndex, consistsIndex, ofIndex))"

definition keyword_indices :: "string list \<Rightarrow> nat option \<times> nat option \<times> nat option" where
  "keyword_indices tokens = foldl (keyword_step tokens) (None, None, None) [2..<length tokens]"

text \<open>The ingredient loop of \<^verbatim>\<open>isPotionFormulaKnowledge\<close> (lines 1118 to 1147).\<close>

function formula_ingredient_loop :: "string list \<Rightarrow> nat \<Rightarrow> error + bool" where
  "formula_ingredient_loop tokens i =
     (if i < length tokens then
        (case isPositiveInteger (tokens ! i) of
           Inl e \<Rightarrow> Inl e
         | Inr ok \<Rightarrow>
             if \<not> ok then Inr False
             else if length tokens \<le> i + 1 \<or> \<not> isAlphabeticOnly (tokens ! (i + 1)) then Inr False
             else if i + 2 < length tokens then
               (if tokens ! (i + 2) = '','' then
                  (if i + 3 = length tokens then Inr False
                   else formula_ingredient_loop tokens (i + 3))
                else if 1 \<le> length tokens - (i + 2) then Inr False
                else formula_ingredient_loop tokens (i + 2))
             else formula_ingredient_loop tokens (i + 2))
      else Inr True)"
  by pat_completeness auto
termination
  by (relation "measure (\<lambda>(tokens, i). length tokens - i)") auto

definition formula_tokens :: "string list \<Rightarrow> error + bool" where
  "formula_tokens tokens =
     (if length tokens < 7 then Inr False
      else if hasCommaSpacingError tokens then Inr False
      else if tokens \<noteq> [] \<and> tokens ! (length tokens - 1) = '','' then Inr False
      else if tokens ! 0 \<noteq> ''Geralt'' \<or> tokens ! 1 \<noteq> ''learns'' then Inr False
      else case keyword_indices tokens of
             (Some potionIndex, Some consistsIndex, Some ofIndex) \<Rightarrow>
               if \<not> (1 < potionIndex \<and> potionIndex < consistsIndex \<and> consistsIndex < ofIndex)
               then Inr False
               else if list_ex (\<lambda>i. \<not> isValidPotionNameToken (tokens ! i)) [2..<potionIndex]
               then Inr False
               else if \<not> (potionIndex + 1 = consistsIndex \<and> consistsIndex + 1 = ofIndex)
               then Inr False
               else formula_ingredient_loop tokens (ofIndex + 1)
           | _ \<Rightarrow> Inr False)"

definition isPotionFormulaKnowledge :: "string \<Rightarrow> error + bool" where
  "isPotionFormulaKnowledge input = formula_tokens (tokenizeInput input)"

text \<open>\<^verbatim>\<open>isEncounterSentence\<close> (lines 1159 to 1175).\<close>

definition encounter_tokens :: "string list \<Rightarrow> bool" where
  "encounter_tokens tokens =
     (if length tokens \<noteq> 4 then False
      else if tokens ! 0 \<noteq> ''Geralt'' \<or> tokens ! 1 \<noteq> ''encounters'' \<or> tokens ! 2 \<noteq> ''a''
      then False
      else isAlphabeticOnly (tokens ! 3))"

definition isEncounterSentence :: "string \<Rightarrow> bool" where
  "isEncounterSentence input = encounter_tokens (tokenizeInput input)"

text \<open>
  \<^verbatim>\<open>isInventoryQuery\<close> (lines 1185 to 1229). The second component is the value of the
  reference parameter \<^verbatim>\<open>isSpecific\<close> on return; \<open>isSpecific0\<close> is its value on entry.
\<close>

definition inventory_query_tokens :: "string list \<Rightarrow> bool \<Rightarrow> bool \<times> bool" where
  "inventory_query_tokens tokens isSpecific0 =
     (if length tokens < 3 \<or> 4 < length tokens then (False, isSpecific0)
      else if tokens ! (length tokens - 1) \<noteq> ''?'' then (False, isSpecific0)
      else if tokens ! 0 \<noteq> ''Total'' then (False, isSpecific0)
      else if tokens ! 1 \<noteq> ''ingredient'' \<and> tokens ! 1 \<noteq> ''potion'' \<and> tokens ! 1 \<noteq> ''trophy''
      then (False, isSpecific0)
      else let isSpecific = (length tokens = 4) in
        if isSpecific then
          (if tokens ! 1 = ''ingredient'' \<or> tokens ! 1 = ''trophy'' then
             (if \<not> isAlphabeticOnly (tokens ! 2) then (False, isSpecific) else (True, isSpecific))
           else if tokens ! 1 = ''potion'' then
             (if \<not> isValidPotionNameToken (tokens ! 2) then (False, isSpecific)
              else (True, isSpecific))
           else (True, isSpecific))
        else (True, isSpecific))"

definition isInventoryQuery :: "string \<Rightarrow> bool \<Rightarrow> bool \<times> bool" where
  "isInventoryQuery input isSpecific0 = inventory_query_tokens (tokenizeInput input) isSpecific0"

text \<open>\<^verbatim>\<open>isBestiaryQuery\<close> (lines 1238 to 1256).\<close>

definition bestiary_query_tokens :: "string list \<Rightarrow> bool" where
  "bestiary_query_tokens tokens =
     (if length tokens \<noteq> 6 then False
      else if tokens ! 0 \<noteq> ''What'' \<or> tokens ! 1 \<noteq> ''is'' \<or> tokens ! 2 \<noteq> ''effective''
              \<or> tokens ! 3 \<noteq> ''against''
      then False
      else if \<not> isAlphabeticOnly (tokens ! 4) then False
      else if tokens ! 5 \<noteq> ''?'' then False
      else True)"

definition isBestiaryQuery :: "string \<Rightarrow> bool" where
  "isBestiaryQuery input = bestiary_query_tokens (tokenizeInput input)"

text \<open>\<^verbatim>\<open>isAlchemyQuery\<close> (lines 1265 to 1287).\<close>

definition alchemy_query_tokens :: "string list \<Rightarrow> bool" where
  "alchemy_query_tokens tokens =
     (if length tokens < 5 then False
      else if tokens ! 0 \<noteq> ''What'' \<or> tokens ! 1 \<noteq> ''is'' \<or> tokens ! 2 \<noteq> ''in'' then False
      else if tokens ! (length tokens - 1) \<noteq> ''?'' then False
      else \<not> list_ex (\<lambda>i. \<not> isValidPotionNameToken (tokens ! i)) [3..<length tokens - 1])"

definition isAlchemyQuery :: "string \<Rightarrow> bool" where
  "isAlchemyQuery input = alchemy_query_tokens (tokenizeInput input)"

text \<open>\<^verbatim>\<open>isExitCommand\<close> (lines 1294 to 1297).\<close>

definition isExitCommand :: "string \<Rightarrow> bool" where
  "isExitCommand input = (input = ''Exit'')"

section \<open>The classifier\<close>

datatype CommandType =
    INVALID_COMMAND | ACTION_LOOT | ACTION_TRADE | ACTION_BREW | KNOWLEDGE_EFFECTIVENESS
  | KNOWLEDGE_POTION_FORMULA | ENCOUNTER | QUERY_SPECIFIC_INVENTORY | QUERY_ALL_INVENTORY
  | QUERY_BESTIARY | QUERY_ALCHEMY | EXIT_COMMAND

text \<open>
  \<^verbatim>\<open>CommandParser::isValidCommand\<close> (lines 1309 to 1374): the returned flag and the value
  left in \<^verbatim>\<open>cmdType\<close>. A checker that throws ends the call.
\<close>

definition isValidCommand :: "string \<Rightarrow> error + (bool \<times> CommandType)" where
  "isValidCommand input =
     (case isLootAction input of
        Inl e \<Rightarrow> Inl e
      | Inr loot \<Rightarrow>
          if loot then Inr (True, ACTION_LOOT)
          else case isTradeAction input of
            Inl e \<Rightarrow> Inl e
          | Inr trade \<Rightarrow>
              if trade then Inr (True, ACTION_TRADE)
              else if isBrewAction input then Inr (True, ACTION_BREW)
              else case isEffectivenessKnowledge input of
                Inl e \<Rightarrow> Inl e
              | Inr eff \<Rightarrow>
                  if eff then Inr (True, KNOWLEDGE_EFFECTIVENESS)
                  else case isPotionFormulaKnowledge input of
                    Inl e \<Rightarrow> Inl e
                  | Inr formula \<Rightarrow>
                      if formula then Inr (True, KNOWLEDGE_POTION_FORMULA)
                      else if isEncounterSentence input then Inr (True, ENCOUNTER)
                      else case isInventoryQuery input False of
                        (True, isSpecific) \<Rightarrow>
                          Inr (True, if isSpecific then QUERY_SPECIFIC_INVENTORY
                                     else QUERY_ALL_INVENTORY)
                      | (False, _) \<Rightarrow>
                          if isBestiaryQuery input then Inr (True, QUERY_BESTIARY)
                          else if isAlchemyQuery input then Inr (True, QUERY_ALCHEMY)
                          else if isExitCommand input then Inr (True, EXIT_COMMAND)
                          else Inr (False, INVALID_COMMAND))"

section \<open>The registries\<close>

text \<open>
  A \<^verbatim>\<open>std::map\<close> is an association list with one entry per key: \<^const>\<open>map_of\<close> is
  \<^verbatim>\<open>find\<close>, \<^const>\<open>AList.update\<close> is assignment through \<^verbatim>\<open>operator[]\<close>. The order of
  the entries plays no role: the only function that iterates over a map sorts what it
  collected.
\<close>

type_synonym qty_map = "(string \<times> int) list"

text \<open>
  Arithmetic on \<^verbatim>\<open>int\<close> is 32-bit two's complement. A signed overflow is undefined
  behaviour in C++; the model stores the wrapped value, as the hardware does, and records
  the event in the ghost field \<open>overflowed\<close> of the inventory, which no function reads.
\<close>

definition wrap32 :: "int \<Rightarrow> int" where
  "wrap32 x = (x + 2147483648) mod 4294967296 - 2147483648"

definition in_int_range :: "int \<Rightarrow> bool" where
  "in_int_range x = (INT_MIN \<le> x \<and> x \<le> INT_MAX)"

record inventory =
  ingredients :: qty_map
  potions :: qty_map
  trophies :: qty_map
  overflowed :: bool

record potion =
  potion_name :: string
  ingredientNames :: "string list"
  ingredientQuantities :: "int list"
  potion_quantity :: int

record beast =
  beast_name :: string
  effectiveSigns :: "string list"
  effectivePotions :: "string list"

record alchemyKnowledge =
  known_potions :: "(string \<times> potion) list"
  known_signs :: "(string \<times> string) list"

record tracker =
  inventory :: inventory
  bestiary :: "(string \<times> beast) list"
  alchemy :: alchemyKnowledge

definition empty_inventory :: inventory where
  "empty_inventory = \<lparr>ingredients = [], potions = [], trophies = [], overflowed = False\<rparr>"

definition empty_tracker :: tracker where
  "empty_tracker =
     \<lparr>inventory = empty_inventory, bestiary = [],
      alchemy = \<lparr>known_potions = [], known_signs = []\<rparr>\<rparr>"

subsection \<open>Inventory\<close>

text \<open>\<^verbatim>\<open>it != m.end() ? it->second : 0\<close>\<close>

definition quantity_of :: "qty_map \<Rightarrow> string \<Rightarrow> int" where
  "quantity_of m name = (case map_of m name of None \<Rightarrow> 0 | Some q \<Rightarrow> q)"

text \<open>\<^verbatim>\<open>m[name] += quantity\<close>: the new map, and whether the sum left the range of \<^verbatim>\<open>int\<close>.\<close>

definition add_quantity :: "qty_map \<Rightarrow> string \<Rightarrow> int \<Rightarrow> qty_map \<times> bool" where
  "add_quantity m name quantity =
     (AList.update name (wrap32 (quantity_of m name + quantity)) m,
      \<not> in_int_range (quantity_of m name + quantity))"

text \<open>
  \<^verbatim>\<open>if (m[name] >= quantity) { m[name] -= quantity; return true; } return false;\<close>
  The test itself creates the entry with quantity 0 when the key is missing.
\<close>

definition remove_quantity :: "qty_map \<Rightarrow> string \<Rightarrow> int \<Rightarrow> bool \<times> qty_map \<times> bool" where
  "remove_quantity m name quantity =
     (if quantity \<le> quantity_of m name then
        (True, AList.update name (wrap32 (quantity_of m name - quantity)) m,
         \<not> in_int_range (quantity_of m name - quantity))
      else (False, AList.update name (quantity_of m name) m, False))"

definition addIngredient :: "inventory \<Rightarrow> string \<Rightarrow> int \<Rightarrow> inventory" where
  "addIngredient iv name quantity =
     (case add_quantity (ingredients iv) name quantity of
        (m, ov) \<Rightarrow> iv\<lparr>ingredients := m, overflowed := overflowed iv \<or> ov\<rparr>)"

definition addPotion :: "inventory \<Rightarrow> string \<Rightarrow> int \<Rightarrow> inventory" where
  "addPotion iv name quantity =
     (case add_quantity (potions iv) name quantity of
        (m, ov) \<Rightarrow> iv\<lparr>potions := m, overflowed := overflowed iv \<or> ov\<rparr>)"

definition addTrophy :: "inventory \<Rightarrow> string \<Rightarrow> int \<Rightarrow> inventory" where
  "addTrophy iv name quantity =
     (case add_quantity (trophies iv) name quantity of
        (m, ov) \<Rightarrow> iv\<lparr>trophies := m, overflowed := overflowed iv \<or> ov\<rparr>)"

definition removeIngredient :: "inventory \<Rightarrow> string \<Rightarrow> int \<Rightarrow> bool \<times> inventory" where
  "removeIngredient iv name quantity =
     (case remove_quantity (ingredients iv) name quantity of
        (ok, m, ov) \<Rightarrow> (ok, iv\<lparr>ingredients := m, overflowed := overflowed iv \<or> ov\<rparr>))"

definition removePotion :: "inventory \<Rightarrow> string \<Rightarrow> int \<Rightarrow> bool \<times> inventory" where
  "removePotion iv name quantity =
     (case remove_quantity (potions iv) name quantity of
        (ok, m, ov) \<Rightarrow> (ok, iv\<lparr>potions := m, overflowed := overflowed iv \<or> ov\<rparr>))"

definition removeTrophy :: "inventory \<Rightarrow> string \<Rightarrow> int \<Rightarrow> bool \<times> inventory" where
  "removeTrophy iv name quantity =
     (case remove_quantity (trophies iv) name quantity of
        (ok, m, ov) \<Rightarrow> (ok, iv\<lparr>trophies := m, overflowed := overflowed iv \<or> ov\<rparr>))"

definition getIngredientQuantity :: "inventory \<Rightarrow> string \<Rightarrow> int" where
  "getIngredientQuantity iv name = quantity_of (ingredients iv) name"

definition getPotionQuantity :: "inventory \<Rightarrow> string \<Rightarrow> int" where
  "getPotionQuantity iv name = quantity_of (potions iv) name"

definition getTrophyQuantity :: "inventory \<Rightarrow> string \<Rightarrow> int" where
  "getTrophyQuantity iv name = quantity_of (trophies iv) name"

text \<open>\<^verbatim>\<open>std::to_string\<close> of an \<^verbatim>\<open>int\<close>.\<close>

fun nat_digits :: "nat \<Rightarrow> string" where
  "nat_digits n =
     (if n < 10 then [char_of (48 + n)]
      else nat_digits (n div 10) @ [char_of (48 + n mod 10)])"

definition to_string :: "int \<Rightarrow> string" where
  "to_string x = (if x < 0 then CHR ''-'' # nat_digits (nat (- x)) else nat_digits (nat x))"

text \<open>\<^verbatim>\<open>if (i > 0) result += sep; result += items[i];\<close>\<close>

fun join_with :: "string \<Rightarrow> string list \<Rightarrow> string" where
  "join_with sep [] = []"
| "join_with sep [x] = x"
| "join_with sep (x # y # r) = x @ sep @ join_with sep (y # r)"

text \<open>
  \<^verbatim>\<open>getAllIngredients\<close>, \<^verbatim>\<open>getAllPotions\<close> and \<^verbatim>\<open>getAllTrophies\<close> have the same body:
  the entries with a positive quantity, sorted as pairs, printed as
  \<^verbatim>\<open>quantity name\<close> and separated by a comma and a space.
\<close>

definition list_positive :: "qty_map \<Rightarrow> string" where
  "list_positive m =
     join_with '', '' (map (\<lambda>(name, q). to_string q @ '' '' @ name)
                          (sort (filter (\<lambda>(name, q). 0 < q) m)))"

definition getAllIngredients :: "inventory \<Rightarrow> string" where
  "getAllIngredients iv = list_positive (ingredients iv)"

definition getAllPotions :: "inventory \<Rightarrow> string" where
  "getAllPotions iv = list_positive (potions iv)"

definition getAllTrophies :: "inventory \<Rightarrow> string" where
  "getAllTrophies iv = list_positive (trophies iv)"

subsection \<open>Alchemy knowledge and bestiary\<close>

definition hasFormula :: "potion \<Rightarrow> bool" where
  "hasFormula p = (ingredientNames p \<noteq> [])"

text \<open>
  \<^verbatim>\<open>addPotionFormula\<close>: \<^verbatim>\<open>potions[potionName]\<close> creates a default potion (empty name,
  quantity 0) when the key is missing; name and recipe are then assigned.
\<close>

definition addPotionFormula ::
    "alchemyKnowledge \<Rightarrow> string \<Rightarrow> string list \<Rightarrow> int list \<Rightarrow> alchemyKnowledge" where
  "addPotionFormula a potionName ingredients' quantities =
     (let old = (case map_of (known_potions a) potionName of
                   None \<Rightarrow> \<lparr>potion_name = [], ingredientNames = [], ingredientQuantities = [],
                            potion_quantity = 0\<rparr>
                 | Some p \<Rightarrow> p)
      in a\<lparr>known_potions :=
             AList.update potionName
               (old\<lparr>potion_name := potionName, ingredientNames := ingredients',
                    ingredientQuantities := quantities\<rparr>)
               (known_potions a)\<rparr>)"

definition addSign :: "alchemyKnowledge \<Rightarrow> string \<Rightarrow> alchemyKnowledge" where
  "addSign a signName = a\<lparr>known_signs := AList.update signName signName (known_signs a)\<rparr>"

definition getPotion :: "alchemyKnowledge \<Rightarrow> string \<Rightarrow> potion option" where
  "getPotion a name = map_of (known_potions a) name"

definition hasPotion :: "alchemyKnowledge \<Rightarrow> string \<Rightarrow> bool" where
  "hasPotion a name = (map_of (known_potions a) name \<noteq> None)"

text \<open>
  \<^verbatim>\<open>getPotionIngredients\<close>: the recipe sorted by quantity (descending), then by name. The
  loop pairs \<^verbatim>\<open>ingredientNames[i]\<close> with \<^verbatim>\<open>ingredientQuantities[i]\<close>; a quantity
  vector shorter than the name vector is an out-of-bounds read.
\<close>

definition getPotionIngredients :: "alchemyKnowledge \<Rightarrow> string \<Rightarrow> error + string" where
  "getPotionIngredients a potionName =
     (case map_of (known_potions a) potionName of
        None \<Rightarrow> Inr []
      | Some p \<Rightarrow>
          if \<not> hasFormula p then Inr []
          else if length (ingredientQuantities p) < length (ingredientNames p) then Inl OutOfBounds
          else Inr (join_with '', ''
                 (map (\<lambda>(name, q). to_string q @ '' '' @ name)
                    (sort_key (\<lambda>(name, q). (- q, name))
                       (zip (ingredientNames p) (ingredientQuantities p))))))"

definition addEffectiveSign :: "beast \<Rightarrow> string \<Rightarrow> beast" where
  "addEffectiveSign b signName =
     (if signName \<notin> set (effectiveSigns b) then b\<lparr>effectiveSigns := effectiveSigns b @ [signName]\<rparr>
      else b)"

definition addEffectivePotion :: "beast \<Rightarrow> string \<Rightarrow> beast" where
  "addEffectivePotion b potionName =
     (if potionName \<notin> set (effectivePotions b)
      then b\<lparr>effectivePotions := effectivePotions b @ [potionName]\<rparr>
      else b)"

definition addBeast :: "(string \<times> beast) list \<Rightarrow> string \<Rightarrow> (string \<times> beast) list" where
  "addBeast beasts name =
     (if map_of beasts name = None
      then AList.update name \<lparr>beast_name = name, effectiveSigns = [], effectivePotions = []\<rparr> beasts
      else beasts)"

definition addEffectiveness ::
    "(string \<times> beast) list \<Rightarrow> string \<Rightarrow> string \<Rightarrow> bool \<Rightarrow> (string \<times> beast) list" where
  "addEffectiveness beasts beastName counter isSign =
     (let beasts1 = addBeast beasts beastName in
      case map_of beasts1 beastName of
        None \<Rightarrow> beasts1
      | Some b \<Rightarrow>
          AList.update beastName
            (if isSign then addEffectiveSign b counter else addEffectivePotion b counter) beasts1)"

definition getBeast :: "(string \<times> beast) list \<Rightarrow> string \<Rightarrow> beast option" where
  "getBeast beasts name = map_of beasts name"

definition getEffectiveCounters :: "(string \<times> beast) list \<Rightarrow> string \<Rightarrow> string" where
  "getEffectiveCounters beasts beastName =
     (case map_of beasts beastName of
        None \<Rightarrow> []
      | Some b \<Rightarrow> join_with '', '' (sort (effectivePotions b @ effectiveSigns b)))"

section \<open>Command execution\<close>

text \<open>
  A method of \<^verbatim>\<open>WitcherTracker\<close> takes the tracker and returns its \<^verbatim>\<open>int\<close> result, the
  tracker it leaves behind and the characters it wrote to \<^verbatim>\<open>cout\<close>, or the failure that
  ended it.
\<close>

type_synonym outcome = "error + (int \<times> tracker \<times> string)"

definition nl :: string where
  "nl = [CHR 0x0A]"

text \<open>
  The loop of \<^verbatim>\<open>executeLootAction\<close> (lines 94 to 111). The quantity is read at an index
  the loop condition guards; the name is read one further without a test.
\<close>

function loot_exec :: "string list \<Rightarrow> nat \<Rightarrow> inventory \<Rightarrow> error + inventory" where
  "loot_exec tokens i iv =
     (if i < length tokens then
        (case stoi (tokens ! i) of
           Inl e \<Rightarrow> Inl e
         | Inr quantity \<Rightarrow>
             (case tok_at tokens (i + 1) of
                Inl e \<Rightarrow> Inl e
              | Inr ingredientName \<Rightarrow>
                  if i + 2 < length tokens \<and> tokens ! (i + 2) = '',''
                  then loot_exec tokens (i + 3) (addIngredient iv ingredientName quantity)
                  else loot_exec tokens (i + 2) (addIngredient iv ingredientName quantity)))
      else Inr iv)"
  by pat_completeness auto
termination
  by (relation "measure (\<lambda>(tokens, i, iv). length tokens - i)") auto

definition executeLootAction :: "tracker \<Rightarrow> string \<Rightarrow> outcome" where
  "executeLootAction tr input =
     (case loot_exec (tokenizeInput input) 2 (inventory tr) of
        Inl e \<Rightarrow> Inl e
      | Inr iv \<Rightarrow> Inr (0, tr\<lparr>inventory := iv\<rparr>, ''Alchemy ingredients obtained'' @ nl))"

text \<open>
  The two parsing loops of \<^verbatim>\<open>executeTradeAction\<close>: the trophies before \<^verbatim>\<open>for\<close>
  (lines 145 to 164) and the ingredients after it (lines 170 to 185).
\<close>

function trade_parse_trophies ::
    "string list \<Rightarrow> nat \<Rightarrow> nat \<Rightarrow> (string \<times> int) list \<Rightarrow> error + (string \<times> int) list" where
  "trade_parse_trophies tokens forIndex i acc =
     (if i < forIndex then
        (case tok_at tokens i of
           Inl e \<Rightarrow> Inl e
         | Inr t \<Rightarrow>
             (case stoi t of
                Inl e \<Rightarrow> Inl e
              | Inr quantity \<Rightarrow>
                  (case tok_at tokens (i + 1) of
                     Inl e \<Rightarrow> Inl e
                   | Inr trophyName \<Rightarrow>
                       let j = (if i + 2 < forIndex \<and> tokens ! (i + 2) = ''trophy''
                                then i + 3 else i + 2);
                           k = (if j < forIndex \<and> tokens ! j = '','' then j + 1 else j)
                       in trade_parse_trophies tokens forIndex k (acc @ [(trophyName, quantity)]))))
      else Inr acc)"
  by pat_completeness auto
termination
  by (relation "measure (\<lambda>(tokens, forIndex, i, acc). forIndex - i)") auto

function parse_pairs ::
    "string list \<Rightarrow> nat \<Rightarrow> (string \<times> int) list \<Rightarrow> error + (string \<times> int) list" where
  "parse_pairs tokens i acc =
     (if i < length tokens then
        (case stoi (tokens ! i) of
           Inl e \<Rightarrow> Inl e
         | Inr quantity \<Rightarrow>
             (case tok_at tokens (i + 1) of
                Inl e \<Rightarrow> Inl e
              | Inr ingredientName \<Rightarrow>
                  if i + 2 < length tokens \<and> tokens ! (i + 2) = '',''
                  then parse_pairs tokens (i + 3) (acc @ [(ingredientName, quantity)])
                  else parse_pairs tokens (i + 2) (acc @ [(ingredientName, quantity)])))
      else Inr acc)"
  by pat_completeness auto
termination
  by (relation "measure (\<lambda>(tokens, i, acc). length tokens - i)") auto

text \<open>
  \<^verbatim>\<open>executeTradeAction\<close> (lines 126 to 217). \<^verbatim>\<open>forIndex\<close> stays 0 when there is no
  \<^verbatim>\<open>for\<close>.
\<close>

definition executeTradeAction :: "tracker \<Rightarrow> string \<Rightarrow> outcome" where
  "executeTradeAction tr input =
     (let tokens = tokenizeInput input;
          forIndex = (case find_for tokens of None \<Rightarrow> 0 | Some i \<Rightarrow> i)
      in case trade_parse_trophies tokens forIndex 2 [] of
           Inl e \<Rightarrow> Inl e
         | Inr requiredTrophies \<Rightarrow>
             (case parse_pairs tokens (forIndex + 1) [] of
                Inl e \<Rightarrow> Inl e
              | Inr gainedIngredients \<Rightarrow>
                  if list_ex (\<lambda>(name, q). getTrophyQuantity (inventory tr) name < q) requiredTrophies
                  then Inr (0, tr, ''Not enough trophies'' @ nl)
                  else
                    let iv1 = foldl (\<lambda>iv (name, q). snd (removeTrophy iv name q))
                                (inventory tr) requiredTrophies;
                        iv2 = foldl (\<lambda>iv (name, q). addIngredient iv name q) iv1 gainedIngredients
                    in Inr (0, tr\<lparr>inventory := iv2\<rparr>, ''Trade successful'' @ nl)))"

text \<open>
  The two loops of \<^verbatim>\<open>executeBrewAction\<close> over the recipe (lines 251 to 258 and 267 to
  270): index \<^verbatim>\<open>i\<close> runs over the names and reads the quantity at the same index.
\<close>

fun brew_has_enough :: "inventory \<Rightarrow> string list \<Rightarrow> int list \<Rightarrow> error + bool" where
  "brew_has_enough iv [] qs = Inr True"
| "brew_has_enough iv (n # ns) [] = Inl OutOfBounds"
| "brew_has_enough iv (n # ns) (q # qs) =
     (if getIngredientQuantity iv n < q then Inr False else brew_has_enough iv ns qs)"

fun brew_consume :: "inventory \<Rightarrow> string list \<Rightarrow> int list \<Rightarrow> error + inventory" where
  "brew_consume iv [] qs = Inr iv"
| "brew_consume iv (n # ns) [] = Inl OutOfBounds"
| "brew_consume iv (n # ns) (q # qs) = brew_consume (snd (removeIngredient iv n q)) ns qs"

definition executeBrewAction :: "tracker \<Rightarrow> string \<Rightarrow> outcome" where
  "executeBrewAction tr input =
     (let tokens = tokenizeInput input;
          potionName = join_with '' '' (drop 2 tokens)
      in case getPotion (alchemy tr) potionName of
           None \<Rightarrow> Inr (0, tr, ''No formula for '' @ potionName @ nl)
         | Some p \<Rightarrow>
             if \<not> hasFormula p then Inr (0, tr, ''No formula for '' @ potionName @ nl)
             else (case brew_has_enough (inventory tr) (ingredientNames p) (ingredientQuantities p) of
                     Inl e \<Rightarrow> Inl e
                   | Inr hasEnoughIngredients \<Rightarrow>
                       if \<not> hasEnoughIngredients then Inr (0, tr, ''Not enough ingredients'' @ nl)
                       else (case brew_consume (inventory tr) (ingredientNames p)
                                    (ingredientQuantities p) of
                               Inl e \<Rightarrow> Inl e
                             | Inr iv \<Rightarrow>
                                 Inr (0, tr\<lparr>inventory := addPotion iv potionName 1\<rparr>,
                                      ''Alchemy item created: '' @ potionName @ nl))))"

text \<open>
  The index search of \<^verbatim>\<open>executeEffectivenessKnowledge\<close> (lines 294 to 309): the result is
  \<^verbatim>\<open>(isIndex, againstIndex, isSign)\<close>.
\<close>

function effectiveness_scan ::
    "string list \<Rightarrow> nat \<Rightarrow> nat \<Rightarrow> nat \<Rightarrow> bool \<Rightarrow> nat \<times> nat \<times> bool" where
  "effectiveness_scan tokens i isIndex againstIndex isSign =
     (if i < length tokens then
        (if tokens ! i = ''is'' then effectiveness_scan tokens (i + 1) i againstIndex isSign
         else if tokens ! i = ''against'' then (isIndex, i, isSign)
         else if tokens ! i = ''sign'' then effectiveness_scan tokens (i + 1) isIndex againstIndex True
         else effectiveness_scan tokens (i + 1) isIndex againstIndex isSign)
      else (isIndex, againstIndex, isSign))"
  by pat_completeness auto
termination
  by (relation "measure (\<lambda>(tokens, i, a, b, c). length tokens - i)") auto

definition executeEffectivenessKnowledge :: "tracker \<Rightarrow> string \<Rightarrow> outcome" where
  "executeEffectivenessKnowledge tr input =
     (let tokens = tokenizeInput input in
      case effectiveness_scan tokens 2 0 0 False of
        (isIndex, againstIndex, isSign) \<Rightarrow>
          let counterName =
                join_with '' '' (filter (\<lambda>t. t \<noteq> ''sign'' \<and> t \<noteq> ''potion'')
                                        (map (\<lambda>i. tokens ! i) [2..<isIndex]));
              monsterName = join_with '' '' (drop (againstIndex + 1) tokens);
              existingBeast = getBeast (bestiary tr) monsterName;
              beastExists = (existingBeast \<noteq> None);
              alreadyKnown =
                (case existingBeast of
                   None \<Rightarrow> False
                 | Some b \<Rightarrow> if isSign then counterName \<in> set (effectiveSigns b)
                             else counterName \<in> set (effectivePotions b))
          in if alreadyKnown then Inr (0, tr, ''Already known effectiveness'' @ nl)
             else
               Inr (0,
                    tr\<lparr>bestiary := addEffectiveness (bestiary tr) monsterName counterName isSign,
                       alchemy := (if isSign then addSign (alchemy tr) counterName else alchemy tr)\<rparr>,
                    (if beastExists then ''Bestiary entry updated: ''
                     else ''New bestiary entry added: '') @ monsterName @ nl))"

text \<open>
  The index search of \<^verbatim>\<open>executeFormulaKnowledge\<close> (lines 396 to 407): the result is
  \<^verbatim>\<open>(potionIndex, ofIndex)\<close>.
\<close>

function formula_scan :: "string list \<Rightarrow> nat \<Rightarrow> nat \<Rightarrow> nat \<Rightarrow> nat \<times> nat" where
  "formula_scan tokens i potionIndex ofIndex =
     (if i < length tokens then
        (if tokens ! i = ''potion'' then formula_scan tokens (i + 1) i ofIndex
         else if tokens ! i = ''of'' then (potionIndex, i)
         else formula_scan tokens (i + 1) potionIndex ofIndex)
      else (potionIndex, ofIndex))"
  by pat_completeness auto
termination
  by (relation "measure (\<lambda>(tokens, i, a, b). length tokens - i)") auto

text \<open>
  \<^verbatim>\<open>executeFormulaKnowledge\<close> (lines 389 to 453); the loop of lines 430 to 446 is
  \<^const>\<open>parse_pairs\<close>, the two vectors being filled side by side.
\<close>

definition executeFormulaKnowledge :: "tracker \<Rightarrow> string \<Rightarrow> outcome" where
  "executeFormulaKnowledge tr input =
     (let tokens = tokenizeInput input in
      case formula_scan tokens 2 0 0 of
        (potionIndex, ofIndex) \<Rightarrow>
          let potionName = join_with '' '' (map (\<lambda>i. tokens ! i) [2..<potionIndex]) in
          if hasPotion (alchemy tr) potionName then Inr (0, tr, ''Already known formula'' @ nl)
          else (case parse_pairs tokens (ofIndex + 1) [] of
                  Inl e \<Rightarrow> Inl e
                | Inr pairs \<Rightarrow>
                    Inr (0,
                         tr\<lparr>alchemy := addPotionFormula (alchemy tr) potionName
                                          (map fst pairs) (map snd pairs)\<rparr>,
                         ''New alchemy formula obtained: '' @ potionName @ nl)))"

text \<open>\<^verbatim>\<open>executeEncounter\<close> (lines 464 to 525).\<close>

definition executeEncounter :: "tracker \<Rightarrow> string \<Rightarrow> outcome" where
  "executeEncounter tr input =
     (let tokens = tokenizeInput input;
          monsterName = join_with '' '' (drop 3 tokens)
      in case getBeast (bestiary tr) monsterName of
           None \<Rightarrow> Inr (0, tr, ''Geralt is unprepared and barely escapes with his life'' @ nl)
         | Some b \<Rightarrow>
             let hasEffectiveCounter =
                   (list_ex (\<lambda>potionName. 0 < getPotionQuantity (inventory tr) potionName)
                            (effectivePotions b)
                    \<or> effectiveSigns b \<noteq> [])
             in if hasEffectiveCounter then
                  let iv1 = foldl (\<lambda>iv potionName.
                                     if 0 < getPotionQuantity iv potionName
                                     then snd (removePotion iv potionName 1) else iv)
                              (inventory tr) (effectivePotions b)
                  in Inr (0, tr\<lparr>inventory := addTrophy iv1 monsterName 1\<rparr>,
                          ''Geralt defeats '' @ monsterName @ nl)
                else Inr (0, tr, ''Geralt is unprepared and barely escapes with his life'' @ nl))"

text \<open>
  The four queries (lines 535 to 683). The item name runs over the indices from the start
  index up to \<^verbatim>\<open>tokens.size() - 1\<close>, an unsigned difference: on an empty vector the loop
  would read past the end.
\<close>

definition executeSpecificInventoryQuery :: "tracker \<Rightarrow> string \<Rightarrow> outcome" where
  "executeSpecificInventoryQuery tr input =
     (let tokens = tokenizeInput input in
      case tok_at tokens 1 of
        Inl e \<Rightarrow> Inl e
      | Inr category \<Rightarrow>
          let itemName = join_with '' '' (drop 2 (butlast tokens));
              quantity =
                (if category = ''ingredient'' then getIngredientQuantity (inventory tr) itemName
                 else if category = ''potion'' then getPotionQuantity (inventory tr) itemName
                 else if category = ''trophy'' then getTrophyQuantity (inventory tr) itemName
                 else 0)
          in Inr (0, tr, to_string quantity @ nl))"

definition executeAllInventoryQuery :: "tracker \<Rightarrow> string \<Rightarrow> outcome" where
  "executeAllInventoryQuery tr input =
     (let tokens = tokenizeInput input in
      case tok_at tokens 1 of
        Inl e \<Rightarrow> Inl e
      | Inr category \<Rightarrow>
          let result =
                (if category = ''ingredient'' then getAllIngredients (inventory tr)
                 else if category = ''potion'' then getAllPotions (inventory tr)
                 else if category = ''trophy'' then getAllTrophies (inventory tr)
                 else [])
          in Inr (0, tr, (if result = [] then ''None'' else result) @ nl))"

definition executeBestiaryQuery :: "tracker \<Rightarrow> string \<Rightarrow> outcome" where
  "executeBestiaryQuery tr input =
     (let tokens = tokenizeInput input in
      if tokens = [] then Inl OutOfBounds
      else
        let monsterName = join_with '' '' (drop 4 (butlast tokens));
            result = getEffectiveCounters (bestiary tr) monsterName
        in Inr (0, tr, (if result = [] then ''No knowledge of '' @ monsterName else result) @ nl))"

definition executeAlchemyQuery :: "tracker \<Rightarrow> string \<Rightarrow> outcome" where
  "executeAlchemyQuery tr input =
     (let tokens = tokenizeInput input in
      if tokens = [] then Inl OutOfBounds
      else
        let potionName = join_with '' '' (drop 3 (butlast tokens)) in
        case getPotionIngredients (alchemy tr) potionName of
          Inl e \<Rightarrow> Inl e
        | Inr result \<Rightarrow>
            Inr (0, tr, (if result = [] then ''No formula for '' @ potionName else result) @ nl))"

text \<open>\<^verbatim>\<open>WitcherTracker::executeCommand\<close> (lines 48 to 77).\<close>

fun executeCommand :: "tracker \<Rightarrow> string \<Rightarrow> CommandType \<Rightarrow> outcome" where
  "executeCommand tr input ACTION_LOOT = executeLootAction tr input"
| "executeCommand tr input ACTION_TRADE = executeTradeAction tr input"
| "executeCommand tr input ACTION_BREW = executeBrewAction tr input"
| "executeCommand tr input KNOWLEDGE_EFFECTIVENESS = executeEffectivenessKnowledge tr input"
| "executeCommand tr input KNOWLEDGE_POTION_FORMULA = executeFormulaKnowledge tr input"
| "executeCommand tr input ENCOUNTER = executeEncounter tr input"
| "executeCommand tr input QUERY_SPECIFIC_INVENTORY = executeSpecificInventoryQuery tr input"
| "executeCommand tr input QUERY_ALL_INVENTORY = executeAllInventoryQuery tr input"
| "executeCommand tr input QUERY_BESTIARY = executeBestiaryQuery tr input"
| "executeCommand tr input QUERY_ALCHEMY = executeAlchemyQuery tr input"
| "executeCommand tr input EXIT_COMMAND = Inr (0, tr, [])"
| "executeCommand tr input INVALID_COMMAND = Inr (- 1, tr, [])"

text \<open>\<^verbatim>\<open>WitcherTracker::executeLine\<close> (lines 20 to 38).\<close>

definition executeLine :: "tracker \<Rightarrow> string \<Rightarrow> outcome" where
  "executeLine tr line =
     (let inputCopy = cleanInputLine line in
      if inputCopy = [] then Inr (- 1, tr, [])
      else case isValidCommand inputCopy of
             Inl e \<Rightarrow> Inl e
           | Inr (valid, cmdType) \<Rightarrow>
               if valid then executeCommand tr inputCopy cmdType else Inr (- 1, tr, []))"

text \<open>
  The body of the loop of \<^verbatim>\<open>main\<close> for a line that was read and is not \<^verbatim>\<open>Exit\<close>
  (lines 43 to 47 of \<^verbatim>\<open>main.cpp\<close>): the tracker afterwards and the output of the line.
\<close>

definition process_line :: "tracker \<Rightarrow> string \<Rightarrow> error + (tracker \<times> string)" where
  "process_line tr line =
     (case executeLine tr line of
        Inl e \<Rightarrow> Inl e
      | Inr (result, tr', out) \<Rightarrow> Inr (tr', out @ (if result = - 1 then ''INVALID'' @ nl else [])))"


text \<open>
  The loops are unfolded by hand in the proofs below: their defining equations are
  unconditional and would be unfolded without end.
\<close>

declare generic_tokens.simps [simp del]
declare formula_loop.simps [simp del]
declare learns_scan.simps [simp del]
declare loot_loop.simps [simp del]
declare trade_trophy_loop.simps [simp del]
declare trade_ingredient_loop.simps [simp del]
declare formula_ingredient_loop.simps [simp del]
declare loot_exec.simps [simp del]
declare trade_parse_trophies.simps [simp del]
declare parse_pairs.simps [simp del]
declare effectiveness_scan.simps [simp del]
declare formula_scan.simps [simp del]
declare nat_digits.simps [simp del]

section \<open>Notions used by the properties\<close>

text \<open>
  The results of the ten shape checkers on one input, in the order in which
  \<^const>\<open>isValidCommand\<close> tries them.
\<close>

definition checker_results :: "string \<Rightarrow> (error + bool) list" where
  "checker_results input =
     [isLootAction input, isTradeAction input, Inr (isBrewAction input),
      isEffectivenessKnowledge input, isPotionFormulaKnowledge input,
      Inr (isEncounterSentence input), Inr (fst (isInventoryQuery input False)),
      Inr (isBestiaryQuery input), Inr (isAlchemyQuery input), Inr (isExitCommand input)]"

text \<open>
  The same results, each with the command type \<^const>\<open>isValidCommand\<close> assigns when the
  checker accepts, and the rule "commit to the first checker that accepts" for an arbitrary
  order of the checkers.
\<close>

definition tagged_results :: "string \<Rightarrow> (CommandType \<times> (error + bool)) list" where
  "tagged_results input =
     [(ACTION_LOOT, isLootAction input), (ACTION_TRADE, isTradeAction input),
      (ACTION_BREW, Inr (isBrewAction input)),
      (KNOWLEDGE_EFFECTIVENESS, isEffectivenessKnowledge input),
      (KNOWLEDGE_POTION_FORMULA, isPotionFormulaKnowledge input),
      (ENCOUNTER, Inr (isEncounterSentence input)),
      (if snd (isInventoryQuery input False) then QUERY_SPECIFIC_INVENTORY
       else QUERY_ALL_INVENTORY, Inr (fst (isInventoryQuery input False))),
      (QUERY_BESTIARY, Inr (isBestiaryQuery input)), (QUERY_ALCHEMY, Inr (isAlchemyQuery input)),
      (EXIT_COMMAND, Inr (isExitCommand input))]"

fun first_accepted :: "(CommandType \<times> (error + bool)) list \<Rightarrow> error + (bool \<times> CommandType)" where
  "first_accepted [] = Inr (False, INVALID_COMMAND)"
| "first_accepted ((ty, Inl e) # rest) = Inl e"
| "first_accepted ((ty, Inr ok) # rest) = (if ok then Inr (True, ty) else first_accepted rest)"

text \<open>The tokens at the indices from \<open>a\<close> up to, not including, \<open>b\<close>.\<close>

definition tokens_between :: "string list \<Rightarrow> nat \<Rightarrow> nat \<Rightarrow> string list" where
  "tokens_between tokens a b = map (\<lambda>i. tokens ! i) [a..<b]"

text \<open>
  A well-formed list of quantity/name pairs: a positive integer, an alphabetic name, and
  either nothing more or a comma followed by a well-formed list. It has at least one pair.
\<close>

fun wf_pair_list :: "string list \<Rightarrow> bool" where
  "wf_pair_list (q # n # rest) =
     (isPositiveInteger q = Inr True \<and> isAlphabeticOnly n \<and>
      (case rest of [] \<Rightarrow> True | c # rest' \<Rightarrow> c = '','' \<and> wf_pair_list rest'))"
| "wf_pair_list _ = False"

text \<open>
  The remaining input \<open>s\<close> starts with a word that strictly extends the keyword \<open>kw\<close>: the
  characters of the keyword, followed immediately by a character that is not whitespace.
\<close>

definition extends_keyword :: "string \<Rightarrow> string \<Rightarrow> bool" where
  "extends_keyword kw s =
     (take (length kw) s = kw \<and>
      (case drop (length kw) s of [] \<Rightarrow> False | c # _ \<Rightarrow> \<not> isspace c))"

text \<open>
  The leading word of the line strictly extends a dispatch keyword of the tokenizer: one of
  \<^verbatim>\<open>What\<close>, \<^verbatim>\<open>Total\<close>, \<^verbatim>\<open>Geralt\<close> at the first non-whitespace character, or one of
  \<^verbatim>\<open>brews\<close>, \<^verbatim>\<open>learns\<close>, \<^verbatim>\<open>trades\<close> as the word after a whole word \<^verbatim>\<open>Geralt\<close>.
\<close>

definition leading_word_extends_keyword :: "string \<Rightarrow> bool" where
  "leading_word_extends_keyword line =
     (list_ex (\<lambda>kw. extends_keyword kw (skip_ws line)) [''What'', ''Total'', ''Geralt'']
      \<or> (at_word ''Geralt'' (skip_ws line)
          \<and> list_ex (\<lambda>kw. extends_keyword kw (skip_ws (drop 6 (skip_ws line))))
               [''brews'', ''learns'', ''trades'']))"

text \<open>
  The generic fallback in the words of the specification: a split on whitespace in which
  each comma is a token of its own and every other maximal run of characters that are
  neither whitespace nor a comma is one token. \<open>run\<close> is the run collected so far.
\<close>

fun split_runs :: "string \<Rightarrow> string \<Rightarrow> string list" where
  "split_runs run [] = (if run = [] then [] else [run])"
| "split_runs run (c # cs) =
     (if isspace c then (if run = [] then [] else [run]) @ split_runs [] cs
      else if c = CHR '','' then (if run = [] then [] else [run]) @ '','' # split_runs [] cs
      else split_runs (run @ [c]) cs)"

definition whitespace_comma_split :: "string \<Rightarrow> string list" where
  "whitespace_comma_split line = split_runs [] line"






text \<open>
  The emitted tokens joined by single spaces, a comma token attached to the token before
  it.
\<close>

fun join_tokens :: "string list \<Rightarrow> string" where
  "join_tokens [] = []"
| "join_tokens [t] = t"
| "join_tokens (t # u # rest) =
     (if u = '','' then t @ join_tokens (u # rest) else t @ '' '' @ join_tokens (u # rest))"







section \<open>Properties\<close>

subsection \<open>Rejected and failing lines\<close>

text \<open>
  C6. The line with two adjacent commas, the line whose quantity has a leading zero and the
  line with two consecutive spaces inside the potion name are rejected by each of the ten
  shape checkers, and \<^const>\<open>isValidCommand\<close> classifies each of them as invalid.
\<close>

theorem boundary_lines_invalid:
  "checker_results ''Geralt loots 4 Quebrith,, 2 Rebis'' = replicate 10 (Inr False)
   \<and> isValidCommand ''Geralt loots 4 Quebrith,, 2 Rebis'' = Inr (False, INVALID_COMMAND)
   \<and> checker_results ''Geralt loots 04 Quebrith'' = replicate 10 (Inr False)
   \<and> isValidCommand ''Geralt loots 04 Quebrith'' = Inr (False, INVALID_COMMAND)
   \<and> checker_results ''Geralt brews Black  Blood'' = replicate 10 (Inr False)
   \<and> isValidCommand ''Geralt brews Black  Blood'' = Inr (False, INVALID_COMMAND)"
  by code_simp

text \<open>
  C3. On the line \<^verbatim>\<open>Geralt learns X sign is\<close> the tokenizer emits exactly five tokens and
  \<^const>\<open>isEffectivenessKnowledge\<close>, having passed the size test for five tokens and found
  \<^verbatim>\<open>is\<close> at index 4, reads index 5: an out-of-bounds read, reached through
  \<^const>\<open>isValidCommand\<close> and \<^const>\<open>executeLine\<close>.
\<close>

theorem effectiveness_reads_past_end:
  "tokenizeInput ''Geralt learns X sign is'' = [''Geralt'', ''learns'', ''X'', ''sign'', ''is'']
   \<and> isEffectivenessKnowledge ''Geralt learns X sign is'' = Inl OutOfBounds
   \<and> isValidCommand ''Geralt learns X sign is'' = Inl OutOfBounds
   \<and> executeLine empty_tracker ''Geralt learns X sign is'' = Inl OutOfBounds"
  by code_simp

text \<open>
  C4. On the all-digit token \<^verbatim>\<open>2147483648\<close> (one more than the largest \<^verbatim>\<open>int\<close>)
  \<^const>\<open>isPositiveInteger\<close> does not return: \<^verbatim>\<open>std::stoi\<close> throws
  \<^verbatim>\<open>std::out_of_range\<close>, and so does the classification of a loot line that carries the
  token.
\<close>

theorem positive_integer_throws_out_of_range:
  "isPositiveInteger ''2147483648'' = Inl OutOfRange
   \<and> isPositiveInteger ''2147483647'' = Inr True
   \<and> isValidCommand ''Geralt loots 2147483648 Rebis'' = Inl OutOfRange
   \<and> process_line empty_tracker ''Geralt loots 2147483648 Rebis'' = Inl OutOfRange"
  by code_simp

subsection \<open>Invalid lines have no effect\<close>

text \<open>
  C1. When the cleaned line is classified as invalid (no shape checker accepts it),
  processing the line leaves the tracker, hence the three registries, as it was, and the
  output of the line is the marker \<^verbatim>\<open>INVALID\<close> followed by a newline.
\<close>

theorem invalid_line_no_effect:
  assumes "isValidCommand (cleanInputLine line) = Inr (False, cmdType)"
  shows "process_line tr line = Inr (tr, ''INVALID'' @ nl)"
  using assms by (simp add: process_line_def executeLine_def Let_def)

theorem invalid_line_no_effect_witness:
  "isValidCommand (cleanInputLine ''Geralt loots 04 Quebrith'') = Inr (False, INVALID_COMMAND)
   \<and> process_line empty_tracker ''Geralt loots 04 Quebrith'' = Inr (empty_tracker, ''INVALID'' @ nl)"
proof -
  have h: "isValidCommand (cleanInputLine ''Geralt loots 04 Quebrith'')
             = Inr (False, INVALID_COMMAND)"
    by code_simp
  from invalid_line_no_effect [OF h] h show ?thesis by simp
qed

subsection \<open>The shape checkers exclude one another\<close>

text \<open>
  What a checker that does not return false has seen in the token sequence. Every checker
  works on the same tokens, so these facts decide which checker it can be.
\<close>

lemma keyword_fold_inv:
  "foldl (keyword_step t) (None, None, None) [2..<n] = (p, c, o') \<Longrightarrow>
     (\<forall>i. p = Some i \<longrightarrow> 2 \<le> i \<and> i < n \<and> t ! i = ''potion'') \<and>
     (\<forall>i. c = Some i \<longrightarrow> 2 \<le> i \<and> i < n \<and> t ! i = ''consists'') \<and>
     (\<forall>i. o' = Some i \<longrightarrow> 2 \<le> i \<and> i < n \<and> t ! i = ''of'')"
proof (induction n arbitrary: p c o')
  case 0
  then show ?case by simp
next
  case (Suc n)
  show ?case
  proof (cases "2 \<le> n")
    case False
    then have "[2..<Suc n] = []" by simp
    with Suc.prems show ?thesis by simp
  next
    case True
    obtain p0 c0 o0 where st: "foldl (keyword_step t) (None, None, None) [2..<n] = (p0, c0, o0)"
      by (metis prod_cases3)
    have step: "keyword_step t (p0, c0, o0) n = (p, c, o')"
      using Suc.prems True st by simp
    from Suc.IH [OF st] have ih:
      "(\<forall>i. p0 = Some i \<longrightarrow> 2 \<le> i \<and> i < n \<and> t ! i = ''potion'')"
      "(\<forall>i. c0 = Some i \<longrightarrow> 2 \<le> i \<and> i < n \<and> t ! i = ''consists'')"
      "(\<forall>i. o0 = Some i \<longrightarrow> 2 \<le> i \<and> i < n \<and> t ! i = ''of'')"
      by blast+
    from step ih True show ?thesis
      by (auto simp: keyword_step_def less_Suc_eq split: if_splits)
  qed
qed

lemma keyword_indices_sound:
  "keyword_indices t = (Some p, Some c, Some o') \<Longrightarrow>
     2 \<le> p \<and> p < length t \<and> t ! p = ''potion'' \<and> c < length t \<and> t ! c = ''consists''
     \<and> o' < length t \<and> t ! o' = ''of''"
  unfolding keyword_indices_def by (drule keyword_fold_inv) simp

lemma loot_nonfalse:
  "loot_tokens t \<noteq> Inr False \<Longrightarrow> 4 \<le> length t \<and> t ! 0 = ''Geralt'' \<and> t ! 1 = ''loots''"
  by (simp add: loot_tokens_def split: if_splits)

lemma trade_nonfalse:
  "trade_tokens t \<noteq> Inr False \<Longrightarrow> 2 \<le> length t \<and> t ! 0 = ''Geralt'' \<and> t ! 1 = ''trades''"
  by (simp add: trade_tokens_def split: if_splits)

lemma brew_true:
  "brew_tokens t \<Longrightarrow> 3 \<le> length t \<and> t ! 0 = ''Geralt'' \<and> t ! 1 = ''brews''"
  by (simp add: brew_tokens_def split: if_splits)

lemma effectiveness_nonfalse:
  "effectiveness_tokens t \<noteq> Inr False \<Longrightarrow>
     5 \<le> length t \<and> t ! 0 = ''Geralt'' \<and> t ! 1 = ''learns'' \<and> (t ! 3 = ''potion'' \<or> t ! 3 = ''sign'')
     \<and> t ! 4 = ''is''
     \<and> (7 \<le> length t \<longrightarrow> length t = 8 \<and> t ! 5 = ''effective'' \<and> t ! 6 = ''against'')"
  by (auto simp: effectiveness_tokens_def tok_at_def split: if_splits)

lemma formula_nonfalse:
  assumes "formula_tokens t \<noteq> Inr False"
  shows "7 \<le> length t \<and> t ! 0 = ''Geralt'' \<and> t ! 1 = ''learns''
     \<and> (\<exists>p. 2 \<le> p \<and> p + 2 < length t \<and> t ! p = ''potion'' \<and> t ! (p + 1) = ''consists'')"
proof -
  from assms have a: "7 \<le> length t" "t ! 0 = ''Geralt''" "t ! 1 = ''learns''"
    by (simp_all add: formula_tokens_def split: if_splits)
  from assms obtain p c o' where k: "keyword_indices t = (Some p, Some c, Some o')"
    and adj: "p + 1 = c \<and> c + 1 = o'"
    by (auto simp: formula_tokens_def split: if_splits prod.splits option.splits)
  from keyword_indices_sound [OF k] adj a show ?thesis by auto
qed


lemma encounter_true:
  "encounter_tokens t \<Longrightarrow> length t = 4 \<and> t ! 0 = ''Geralt'' \<and> t ! 1 = ''encounters''"
  by (simp add: encounter_tokens_def split: if_splits)

lemma inventory_query_true:
  "fst (inventory_query_tokens t b) \<Longrightarrow> 3 \<le> length t \<and> t ! 0 = ''Total''"
  by (simp add: inventory_query_tokens_def Let_def split: if_splits)

lemma bestiary_query_true:
  "bestiary_query_tokens t \<Longrightarrow> length t = 6 \<and> t ! 0 = ''What'' \<and> t ! 2 = ''effective''"
  by (simp add: bestiary_query_tokens_def split: if_splits)

lemma alchemy_query_true:
  "alchemy_query_tokens t \<Longrightarrow> 5 \<le> length t \<and> t ! 0 = ''What'' \<and> t ! 2 = ''in''"
  by (simp add: alchemy_query_tokens_def split: if_splits)

lemma tokenize_Exit: "tokenizeInput ''Exit'' = [''Exit'']"
  by code_simp

lemma filter_at_most_one:
  assumes "\<And>i. i < length xs \<Longrightarrow> P (xs ! i) \<Longrightarrow> i = k"
  shows "length (filter P xs) \<le> 1"
proof -
  have "{i. i < length xs \<and> P (xs ! i)} \<subseteq> {k}" using assms by auto
  then have "card {i. i < length xs \<and> P (xs ! i)} \<le> card {k}"
    by (intro card_mono) auto
  then show ?thesis by (simp add: length_filter_conv_card)
qed

lemma checkers_exclusive:
  "length (filter (\<lambda>r. r \<noteq> Inr False) (checker_results input)) \<le> 1"
proof -
  define t where "t = tokenizeInput input"
  define F where "F \<longleftrightarrow> 7 \<le> length t \<and>
     (\<exists>p. 2 \<le> p \<and> p + 2 < length t \<and> t ! p = ''potion'' \<and> t ! (p + 1) = ''consists'')"
  define k :: nat where "k =
    (if input = ''Exit'' then 9
     else if t ! 0 = ''Total'' then 6
     else if t ! 0 = ''What'' then (if t ! 2 = ''effective'' then 7 else 8)
     else if t ! 1 = ''loots'' then 0
     else if t ! 1 = ''trades'' then 1
     else if t ! 1 = ''brews'' then 2
     else if t ! 1 = ''learns'' then (if F then 4 else 3)
     else 5)"
  have ex: "input = ''Exit'' \<Longrightarrow> length t = 1"
    by (simp add: t_def tokenize_Exit)
  have c0: "k = 0" if "isLootAction input \<noteq> Inr False"
  proof -
    from that have "4 \<le> length t \<and> t ! 0 = ''Geralt'' \<and> t ! 1 = ''loots''"
      using loot_nonfalse [of t] by (simp add: isLootAction_def t_def)
    with ex show ?thesis by (auto simp: k_def)
  qed
  have c1: "k = 1" if "isTradeAction input \<noteq> Inr False"
  proof -
    from that have "2 \<le> length t \<and> t ! 0 = ''Geralt'' \<and> t ! 1 = ''trades''"
      using trade_nonfalse [of t] by (simp add: isTradeAction_def t_def)
    with ex show ?thesis by (auto simp: k_def)
  qed
  have c2: "k = 2" if "isBrewAction input"
  proof -
    from that have "3 \<le> length t \<and> t ! 0 = ''Geralt'' \<and> t ! 1 = ''brews''"
      using brew_true [of t] by (simp add: isBrewAction_def t_def)
    with ex show ?thesis by (auto simp: k_def)
  qed
  have c3: "k = 3" if "isEffectivenessKnowledge input \<noteq> Inr False"
  proof -
    from that have e: "5 \<le> length t" "t ! 0 = ''Geralt''" "t ! 1 = ''learns''"
      "t ! 3 = ''potion'' \<or> t ! 3 = ''sign''" "t ! 4 = ''is''"
      "7 \<le> length t \<longrightarrow> length t = 8 \<and> t ! 5 = ''effective'' \<and> t ! 6 = ''against''"
      using effectiveness_nonfalse [of t] by (simp_all add: isEffectivenessKnowledge_def t_def)
    have "\<not> F"
    proof
      assume F
      then obtain p where p: "7 \<le> length t" "2 \<le> p" "p + 2 < length t"
        "t ! (p + 1) = ''consists''"
        unfolding F_def by blast
      define q where "q = p + 1"
      from p e have l: "length t = 8" "t ! 5 = ''effective''" "t ! 6 = ''against''" by simp_all
      from p l have "q = 3 \<or> q = 4 \<or> q = 5 \<or> q = 6" unfolding q_def by arith
      moreover have "t ! q = ''consists''" using p by (simp add: q_def)
      ultimately consider "t ! 3 = ''consists''" | "t ! 4 = ''consists''"
        | "t ! 5 = ''consists''" | "t ! 6 = ''consists''" by blast
      then show False using e(4,5) l(2,3) by cases simp_all
    qed
    with e(1,2,3) ex show ?thesis by (auto simp: k_def)
  qed
  have c4: "k = 4" if "isPotionFormulaKnowledge input \<noteq> Inr False"
  proof -
    from that have "7 \<le> length t \<and> t ! 0 = ''Geralt'' \<and> t ! 1 = ''learns'' \<and> F"
      using formula_nonfalse [of t] by (simp add: isPotionFormulaKnowledge_def t_def F_def)
    with ex show ?thesis by (auto simp: k_def)
  qed
  have c5: "k = 5" if "isEncounterSentence input"
  proof -
    from that have "length t = 4 \<and> t ! 0 = ''Geralt'' \<and> t ! 1 = ''encounters''"
      using encounter_true [of t] by (simp add: isEncounterSentence_def t_def)
    with ex show ?thesis by (auto simp: k_def)
  qed
  have c6: "k = 6" if "fst (isInventoryQuery input False)"
  proof -
    from that have "3 \<le> length t \<and> t ! 0 = ''Total''"
      using inventory_query_true [of t False] by (simp add: isInventoryQuery_def t_def)
    with ex show ?thesis by (auto simp: k_def)
  qed
  have c7: "k = 7" if "isBestiaryQuery input"
  proof -
    from that have "length t = 6 \<and> t ! 0 = ''What'' \<and> t ! 2 = ''effective''"
      using bestiary_query_true [of t] by (simp add: isBestiaryQuery_def t_def)
    with ex show ?thesis by (auto simp: k_def)
  qed
  have c8: "k = 8" if "isAlchemyQuery input"
  proof -
    from that have "5 \<le> length t \<and> t ! 0 = ''What'' \<and> t ! 2 = ''in''"
      using alchemy_query_true [of t] by (simp add: isAlchemyQuery_def t_def)
    with ex show ?thesis by (auto simp: k_def)
  qed
  have c9: "k = 9" if "isExitCommand input"
    using that by (simp add: isExitCommand_def k_def)
  show ?thesis
  proof (rule filter_at_most_one [where k = k])
    fix idx
    assume len: "idx < length (checker_results input)"
      and P: "checker_results input ! idx \<noteq> Inr False"
    from len have "idx < 10" by (simp add: checker_results_def)
    then have "idx \<in> {0, 1, 2, 3, 4, 5, 6, 7, 8, 9}" by auto
    with P c0 c1 c2 c3 c4 c5 c6 c7 c8 c9 show "idx = k"
      by (auto simp: checker_results_def)
  qed
qed

lemma isValidCommand_first_accepted: "isValidCommand input = first_accepted (tagged_results input)"
proof -
  obtain ok sp where iq: "isInventoryQuery input False = (ok, sp)" by (cases "isInventoryQuery input False")
  show ?thesis
    unfolding isValidCommand_def tagged_results_def iq
    by (cases "isLootAction input"; cases "isTradeAction input";
        cases "isEffectivenessKnowledge input"; cases "isPotionFormulaKnowledge input";
        cases ok; simp)
qed

lemma first_accepted_filter:
  "first_accepted xs = first_accepted (filter (\<lambda>x. snd x \<noteq> Inr False) xs)"
  by (induction xs rule: first_accepted.induct) auto

lemma short_list_mset_eq:
  assumes "mset ys = mset xs" "length xs \<le> 1"
  shows "ys = xs"
proof -
  have l: "length ys = length xs" using assms(1) by (metis size_mset)
  show ?thesis
  proof (cases xs)
    case Nil
    with l show ?thesis by simp
  next
    case (Cons a as)
    with assms(2) have xs: "xs = [a]" by simp
    with l obtain b where ys: "ys = [b]" by (cases ys) auto
    with xs assms(1) show ?thesis by simp
  qed
qed

lemma first_accepted_order:
  assumes "mset order = mset (tagged_results input)"
  shows "first_accepted order = isValidCommand input"
proof -
  let ?Q = "\<lambda>x::CommandType \<times> (error + bool). snd x \<noteq> Inr False"
  have m: "map snd (tagged_results input) = checker_results input"
    by (simp add: tagged_results_def checker_results_def)
  have "length (filter ?Q (tagged_results input))
          = length (filter (\<lambda>r. r \<noteq> Inr False) (map snd (tagged_results input)))"
    by (simp add: filter_map comp_def)
  then have le: "length (filter ?Q (tagged_results input)) \<le> 1"
    using checkers_exclusive [of input] by (simp add: m)
  have "mset (filter ?Q order) = mset (filter ?Q (tagged_results input))"
    using assms by simp
  then have "filter ?Q order = filter ?Q (tagged_results input)"
    using le by (rule short_list_mset_eq)
  then have "first_accepted order = first_accepted (tagged_results input)"
    using first_accepted_filter [of order] first_accepted_filter [of "tagged_results input"]
    by simp
  then show ?thesis by (simp add: isValidCommand_first_accepted)
qed

lemma filter_true_le_filter_nonfalse:
  "length (filter (\<lambda>r. r = Inr True) xs) \<le> length (filter (\<lambda>r::error + bool. r \<noteq> Inr False) xs)"
  by (induction xs) auto

text \<open>
  C2. For every input at most one of the ten shape checkers returns true; more, at most one
  returns anything but false (true or a failure). \<^const>\<open>isValidCommand\<close> is "the first
  checker that accepts" in its fixed order, and trying the ten checkers in any other order
  gives the same result: the precedence order decides nothing.
\<close>

theorem shape_checkers_mutually_exclusive:
  "length (filter (\<lambda>r. r = Inr True) (checker_results input)) \<le> 1
   \<and> length (filter (\<lambda>r. r \<noteq> Inr False) (checker_results input)) \<le> 1
   \<and> isValidCommand input = first_accepted (tagged_results input)
   \<and> (\<forall>order. mset order = mset (tagged_results input)
        \<longrightarrow> first_accepted order = isValidCommand input)"
  using checkers_exclusive [of input] filter_true_le_filter_nonfalse [of "checker_results input"]
    isValidCommand_first_accepted [of input] first_accepted_order [of _ input]
  by simp

theorem shape_checkers_mutually_exclusive_witness:
  "mset (rev (tagged_results ''Geralt encounters a Bruxa''))
     = mset (tagged_results ''Geralt encounters a Bruxa'')
   \<and> first_accepted (rev (tagged_results ''Geralt encounters a Bruxa'')) = Inr (True, ENCOUNTER)
   \<and> isValidCommand ''Geralt encounters a Bruxa'' = Inr (True, ENCOUNTER)"
proof -
  have v: "isValidCommand ''Geralt encounters a Bruxa'' = Inr (True, ENCOUNTER)"
    by code_simp
  have m: "mset (rev (tagged_results ''Geralt encounters a Bruxa''))
             = mset (tagged_results ''Geralt encounters a Bruxa'')"
    by simp
  from shape_checkers_mutually_exclusive [of "''Geralt encounters a Bruxa''"] m
  have "first_accepted (rev (tagged_results ''Geralt encounters a Bruxa''))
          = isValidCommand ''Geralt encounters a Bruxa''"
    by blast
  with v m show ?thesis by simp
qed

subsection \<open>The structure of an accepted trade\<close>

lemma tokens_between_Cons:
  "a < b \<Longrightarrow> tokens_between t a b = t ! a # tokens_between t (Suc a) b"
  by (simp add: tokens_between_def upt_conv_Cons)

lemma tokens_between_empty: "b \<le> a \<Longrightarrow> tokens_between t a b = []"
  by (simp add: tokens_between_def)

lemma trophy_loop_wf:
  "trade_trophy_loop t f i True False = Inr True \<Longrightarrow>
     i + 2 < f \<and> t ! (f - 1) = ''trophy'' \<and> wf_pair_list (tokens_between t i (f - 1))"
proof (induction "f - i" arbitrary: i rule: less_induct)
  case less
  note run = less.prems
  from run have i: "i < f"
    by (subst (asm) trade_trophy_loop.simps) (simp split: if_splits)
  from run i have q: "isPositiveInteger (t ! i) = Inr True"
    and r1: "trade_trophy_loop t f (i + 1) False False = Inr True"
    by (subst (asm) trade_trophy_loop.simps; simp split: sum.splits if_splits)+
  from r1 have i1: "i + 1 < f"
    by (subst (asm) trade_trophy_loop.simps) (simp split: if_splits)
  from r1 i1 have n: "isAlphabeticOnly (t ! (i + 1))"
    by (subst (asm) trade_trophy_loop.simps) (simp split: if_splits)
  from r1 i1 n have i2: "i + 2 < f"
    by (subst (asm) trade_trophy_loop.simps) (auto split: if_splits)
  from r1 i1 n i2 consider
      (last) "t ! (i + 2) = ''trophy''" "i + 3 = f"
    | (comma) "t ! (i + 2) = '',''" "trade_trophy_loop t f (i + 3) True False = Inr True"
    by (subst (asm) trade_trophy_loop.simps) (auto split: if_splits simp: numeral_3_eq_3 numeral_2_eq_2)
  then show ?case
  proof cases
    case last
    then have "tokens_between t i (f - 1) = [t ! i, t ! (i + 1)]"
      by (simp add: tokens_between_def upt_rec [of i] upt_rec [of "Suc i"])
    with q n last i2 show ?thesis by auto
  next
    case comma
    have "f - (i + 3) < f - i" using i by arith
    from less.hyps [OF this comma(2)]
    have ih: "i + 3 + 2 < f" "t ! (f - 1) = ''trophy''"
      "wf_pair_list (tokens_between t (i + 3) (f - 1))" by simp_all
    have "tokens_between t i (f - 1)
            = t ! i # t ! (i + 1) # t ! (i + 2) # tokens_between t (i + 3) (f - 1)"
      using ih(1) by (simp add: tokens_between_def upt_rec [of i] upt_rec [of "Suc i"]
          upt_rec [of "Suc (Suc i)"] numeral_3_eq_3)
    with q n comma(1) ih i2 show ?thesis by simp
  qed
qed

lemma ingredient_loop_wf:
  "trade_ingredient_loop t i True = Inr True \<Longrightarrow> i < length t \<Longrightarrow>
     wf_pair_list (tokens_between t i (length t))"
proof (induction "length t - i" arbitrary: i rule: less_induct)
  case less
  note run = less.prems(1) and i = less.prems(2)
  from run i have q: "isPositiveInteger (t ! i) = Inr True" and i1: "i + 1 < length t"
    and r1: "trade_ingredient_loop t (i + 1) False = Inr True"
    by (subst (asm) trade_ingredient_loop.simps; auto split: sum.splits if_splits)+
  from r1 i1 have n: "isAlphabeticOnly (t ! (i + 1))"
    by (subst (asm) trade_ingredient_loop.simps) (simp split: if_splits)
  from r1 i1 n consider
      (last) "i + 2 = length t"
    | (comma) "i + 3 < length t" "t ! (i + 2) = '',''"
        "trade_ingredient_loop t (i + 3) True = Inr True"
    by (subst (asm) trade_ingredient_loop.simps)
       (auto split: if_splits simp: numeral_3_eq_3 numeral_2_eq_2)
  then show ?case
  proof cases
    case last
    then have "tokens_between t i (length t) = [t ! i, t ! (i + 1)]"
      by (simp add: tokens_between_def upt_rec [of i] upt_rec [of "Suc i"])
    with q n show ?thesis by simp
  next
    case comma
    have "length t - (i + 3) < length t - i" using i by arith
    from less.hyps [OF this comma(3) comma(1)]
    have ih: "wf_pair_list (tokens_between t (i + 3) (length t))" .
    have "tokens_between t i (length t)
            = t ! i # t ! (i + 1) # t ! (i + 2) # tokens_between t (i + 3) (length t)"
      using comma(1) by (simp add: tokens_between_def upt_rec [of i] upt_rec [of "Suc i"]
          upt_rec [of "Suc (Suc i)"] numeral_3_eq_3)
    with q n comma(2) ih show ?thesis by simp
  qed
qed

lemma find_for_Some:
  "find_for t = Some f \<Longrightarrow> 2 \<le> f \<and> f < length t \<and> t ! f = ''for'' \<and> (\<forall>j. 2 \<le> j \<and> j < f \<longrightarrow> t ! j \<noteq> ''for'')"
proof -
  assume "find_for t = Some f"
  then obtain k where k: "k < length [2..<length t]" "t ! ([2..<length t] ! k) = ''for''"
    "f = [2..<length t] ! k" "\<forall>j<k. t ! ([2..<length t] ! j) \<noteq> ''for''"
    unfolding find_for_def find_Some_iff by blast
  from k(1) have kl: "2 + k < length t" by simp
  then have f: "f = 2 + k" using k(3) by simp
  have "t ! j \<noteq> ''for''" if "2 \<le> j" "j < f" for j
  proof -
    from that f have "j - 2 < k" by arith
    with k(4) have "t ! ([2..<length t] ! (j - 2)) \<noteq> ''for''" by blast
    moreover have "[2..<length t] ! (j - 2) = j" using that f kl by simp
    ultimately show ?thesis by simp
  qed
  with k(2) f kl show ?thesis by simp
qed

lemma wf_pair_list_length: "wf_pair_list xs \<Longrightarrow> 2 \<le> length xs"
  by (cases xs rule: wf_pair_list.cases) simp_all

text \<open>
  C5. When \<^const>\<open>isTradeAction\<close> accepts an input, the first \<^verbatim>\<open>for\<close> token (from index 2)
  exists at an index \<open>f\<close> with \<open>4 < f\<close> and \<open>f < size - 2\<close>; the token at \<open>f - 1\<close> is
  \<^verbatim>\<open>trophy\<close>; the tokens from index 2 up to \<open>f - 2\<close> (between \<^verbatim>\<open>trades\<close> and
  \<^verbatim>\<open>trophy\<close>) and the tokens after \<open>f\<close> are well-formed lists of positive-quantity and
  alphabetic-name pairs separated by commas, each with at least one pair.
\<close>

theorem trade_action_structure:
  assumes "isTradeAction input = Inr True"
  shows "\<exists>f. find_for (tokenizeInput input) = Some f
           \<and> 4 < f \<and> f + 2 < length (tokenizeInput input)
           \<and> tokenizeInput input ! 0 = ''Geralt'' \<and> tokenizeInput input ! 1 = ''trades''
           \<and> tokenizeInput input ! f = ''for''
           \<and> tokenizeInput input ! (f - 1) = ''trophy''
           \<and> wf_pair_list (tokens_between (tokenizeInput input) 2 (f - 1))
           \<and> 2 \<le> length (tokens_between (tokenizeInput input) 2 (f - 1))
           \<and> wf_pair_list (tokens_between (tokenizeInput input) (f + 1)
                             (length (tokenizeInput input)))
           \<and> 2 \<le> length (tokens_between (tokenizeInput input) (f + 1)
                             (length (tokenizeInput input)))"
proof -
  define t where "t = tokenizeInput input"
  from assms have tr: "trade_tokens t = Inr True"
    by (simp add: isTradeAction_def t_def)
  then have hd: "t ! 0 = ''Geralt''" "t ! 1 = ''trades''"
    by (simp_all add: trade_tokens_def split: if_splits)
  from tr obtain f where f: "find_for t = Some f"
    by (auto simp: trade_tokens_def split: if_splits option.splits)
  from tr f have bounds: "4 < f" "f + 2 < length t"
    by (auto simp: trade_tokens_def split: if_splits)
  from tr f bounds have trophy: "trade_trophy_loop t f 2 True False = Inr True"
    by (auto simp: trade_tokens_def split: if_splits sum.splits)
  from tr f bounds trophy have ingr: "trade_ingredient_loop t (f + 1) True = Inr True"
    by (auto simp: trade_tokens_def split: if_splits)
  from trophy_loop_wf [OF trophy]
  have a: "t ! (f - 1) = ''trophy''" "wf_pair_list (tokens_between t 2 (f - 1))" by simp_all
  from ingredient_loop_wf [OF ingr] bounds
  have b: "wf_pair_list (tokens_between t (f + 1) (length t))" by simp
  from find_for_Some [OF f] have "t ! f = ''for''" by simp
  with f bounds hd a b wf_pair_list_length [OF a(2)] wf_pair_list_length [OF b]
  show ?thesis unfolding t_def [symmetric] by blast
qed

theorem trade_action_structure_witness:
  "isTradeAction ''Geralt trades 2 Wyvern, 1 Bruxa trophy for 3 Rebis'' = Inr True
   \<and> (\<exists>f. find_for (tokenizeInput ''Geralt trades 2 Wyvern, 1 Bruxa trophy for 3 Rebis'') = Some f
          \<and> 4 < f
          \<and> tokenizeInput ''Geralt trades 2 Wyvern, 1 Bruxa trophy for 3 Rebis'' ! (f - 1) = ''trophy'')"
proof -
  have h: "isTradeAction ''Geralt trades 2 Wyvern, 1 Bruxa trophy for 3 Rebis'' = Inr True"
    by code_simp
  from trade_action_structure [OF h] h show ?thesis by blast
qed

subsection \<open>Words that extend a keyword reach the generic fallback\<close>

lemma generic_tokens_Nil [simp]: "generic_tokens [] = []"
  by (simp add: generic_tokens.simps)

lemma generic_tokens_space: "isspace c \<Longrightarrow> generic_tokens (c # cs) = generic_tokens cs"
  by (simp add: generic_tokens.simps [of "c # cs"] generic_tokens.simps [of cs])

lemma generic_tokens_comma: "generic_tokens (CHR '','' # cs) = '','' # generic_tokens cs"
  by (simp add: generic_tokens.simps [of "CHR '','' # cs"] isspace_def)

lemma generic_tokens_word:
  "word_char c \<Longrightarrow>
     generic_tokens (c # cs) = (c # takeWhile word_char cs) # generic_tokens (dropWhile word_char cs)"
  by (simp add: generic_tokens.simps [of "c # cs"] word_char_def)

lemma split_runs_generic:
  "split_runs run s =
     (if run = [] then generic_tokens s
      else (run @ takeWhile word_char s) # generic_tokens (dropWhile word_char s))"
proof (induction s arbitrary: run)
  case Nil
  then show ?case by simp
next
  case (Cons c cs)
  consider (sp) "isspace c" | (co) "c = CHR '',''" "\<not> isspace c" | (wc) "word_char c"
    by (auto simp: word_char_def)
  then show ?case
  proof cases
    case sp
    then have "\<not> word_char c" by (simp add: word_char_def)
    with sp Cons.IH [of "[]"] show ?thesis by (simp add: generic_tokens_space)
  next
    case co
    then have "\<not> word_char c" by (simp add: word_char_def)
    with co Cons.IH [of "[]"] show ?thesis by (simp add: generic_tokens_comma)
  next
    case wc
    then have "\<not> isspace c" "c \<noteq> CHR '',''" by (simp_all add: word_char_def)
    with wc Cons.IH [of "run @ [c]"] show ?thesis by (simp add: generic_tokens_word)
  qed
qed

lemma generic_tokens_split: "generic_tokens line = whitespace_comma_split line"
  by (simp add: whitespace_comma_split_def split_runs_generic)

lemma extends_not_at_word: "extends_keyword kw s \<Longrightarrow> \<not> at_word kw s"
  by (auto simp: extends_keyword_def at_word_def split: list.splits)

lemma prefix_clash:
  assumes "take (length k1) s = k1" "take (length k2) s = k2"
  shows "take (min (length k1) (length k2)) k1 = take (min (length k1) (length k2)) k2"
proof -
  have "take (min (length k1) (length k2)) (take (length k1) s)
          = take (min (length k1) (length k2)) (take (length k2) s)"
    by (simp add: min.commute min.left_commute)
  with assms show ?thesis by simp
qed

lemma other_keyword_not_at_word:
  assumes "take (length k1) s = k1"
    and "take (min (length k1) (length k2)) k1 \<noteq> take (min (length k1) (length k2)) k2"
  shows "\<not> at_word k2 s"
  using assms prefix_clash [of k1 s k2] by (auto simp: at_word_def)

lemma extends_take: "extends_keyword kw s \<Longrightarrow> take (length kw) s = kw"
  by (simp add: extends_keyword_def)

lemma at_word_take: "at_word kw s \<Longrightarrow> take (length kw) s = kw"
  by (simp add: at_word_def)

lemma no_first_level_branch:
  assumes "\<not> at_word ''What'' (skip_ws line)" "\<not> at_word ''Total'' (skip_ws line)"
    "\<not> at_word ''Geralt'' (skip_ws line)"
  shows "tokenizeInput line = generic_tokens line"
  using assms by (simp add: tokenizeInput_def what_branch_def geralt_branch_def)

lemma no_second_level_branch:
  assumes "at_word ''Geralt'' (skip_ws line)"
    and "\<not> at_word ''brews'' (skip_ws (drop 6 (skip_ws line)))"
    and "\<not> at_word ''learns'' (skip_ws (drop 6 (skip_ws line)))"
    and "\<not> at_word ''trades'' (skip_ws (drop 6 (skip_ws line)))"
  shows "tokenizeInput line = generic_tokens line"
proof -
  from at_word_take [OF assms(1)]
  have "\<not> at_word ''What'' (skip_ws line)" "\<not> at_word ''Total'' (skip_ws line)"
    by (rule other_keyword_not_at_word; simp)+
  with assms show ?thesis
    by (simp add: tokenizeInput_def what_branch_def geralt_branch_def)
qed

lemma extended_keyword_falls_back:
  assumes "leading_word_extends_keyword line"
  shows "tokenizeInput line = generic_tokens line"
proof -
  define s0 where "s0 = skip_ws line"
  define s1 where "s1 = skip_ws (drop 6 s0)"
  from assms consider
      (What) "extends_keyword ''What'' s0" | (Total) "extends_keyword ''Total'' s0"
    | (Geralt) "extends_keyword ''Geralt'' s0"
    | (brews) "at_word ''Geralt'' s0" "extends_keyword ''brews'' s1"
    | (learns) "at_word ''Geralt'' s0" "extends_keyword ''learns'' s1"
    | (trades) "at_word ''Geralt'' s0" "extends_keyword ''trades'' s1"
    by (auto simp: leading_word_extends_keyword_def s0_def s1_def)
  then show ?thesis
  proof cases
    case What
    from extends_take [OF What]
    have "\<not> at_word ''Total'' s0" "\<not> at_word ''Geralt'' s0"
      by (rule other_keyword_not_at_word; simp)+
    with extends_not_at_word [OF What] show ?thesis
      unfolding s0_def by (intro no_first_level_branch)
  next
    case Total
    from extends_take [OF Total]
    have "\<not> at_word ''What'' s0" "\<not> at_word ''Geralt'' s0"
      by (rule other_keyword_not_at_word; simp)+
    with extends_not_at_word [OF Total] show ?thesis
      unfolding s0_def by (intro no_first_level_branch)
  next
    case Geralt
    from extends_take [OF Geralt]
    have "\<not> at_word ''What'' s0" "\<not> at_word ''Total'' s0"
      by (rule other_keyword_not_at_word; simp)+
    with extends_not_at_word [OF Geralt] show ?thesis
      unfolding s0_def by (intro no_first_level_branch)
  next
    case brews
    from extends_take [OF brews(2)]
    have "\<not> at_word ''learns'' s1" "\<not> at_word ''trades'' s1"
      by (rule other_keyword_not_at_word; simp)+
    with extends_not_at_word [OF brews(2)] brews(1) show ?thesis
      unfolding s0_def s1_def by (intro no_second_level_branch)
  next
    case learns
    from extends_take [OF learns(2)]
    have "\<not> at_word ''brews'' s1" "\<not> at_word ''trades'' s1"
      by (rule other_keyword_not_at_word; simp)+
    with extends_not_at_word [OF learns(2)] learns(1) show ?thesis
      unfolding s0_def s1_def by (intro no_second_level_branch)
  next
    case trades
    from extends_take [OF trades(2)]
    have "\<not> at_word ''brews'' s1" "\<not> at_word ''learns'' s1"
      by (rule other_keyword_not_at_word; simp)+
    with extends_not_at_word [OF trades(2)] trades(1) show ?thesis
      unfolding s0_def s1_def by (intro no_second_level_branch)
  qed
qed

text \<open>
  C8. When the leading word of a line strictly extends a dispatch keyword (the keyword is
  followed immediately by a character that is not whitespace), the tokenizer commits to no
  branch: its result is that of the generic fallback loop on the entire line, which is the
  split on whitespace with every comma a token of its own and every other maximal run of
  non-whitespace, non-comma characters one token.
\<close>

theorem extended_keyword_generic_fallback:
  assumes "leading_word_extends_keyword line"
  shows "tokenizeInput line = generic_tokens line
         \<and> tokenizeInput line = whitespace_comma_split line"
  using extended_keyword_falls_back [OF assms] generic_tokens_split [of line] by simp

theorem extended_keyword_generic_fallback_witness:
  "leading_word_extends_keyword ''Geralt brewsX Black Blood''
   \<and> tokenizeInput ''Geralt brewsX Black Blood'' = whitespace_comma_split ''Geralt brewsX Black Blood''
   \<and> whitespace_comma_split ''Geralt brewsX Black Blood'' = [''Geralt'', ''brewsX'', ''Black'', ''Blood'']
   \<and> leading_word_extends_keyword ''Totally ingredient, x?''
   \<and> tokenizeInput ''Totally ingredient, x?'' = [''Totally'', ''ingredient'', '','', ''x?'']"
proof -
  have h1: "leading_word_extends_keyword ''Geralt brewsX Black Blood''" by code_simp
  have h2: "leading_word_extends_keyword ''Totally ingredient, x?''" by code_simp
  have s1: "whitespace_comma_split ''Geralt brewsX Black Blood''
              = [''Geralt'', ''brewsX'', ''Black'', ''Blood'']" by code_simp
  have s2: "whitespace_comma_split ''Totally ingredient, x?''
              = [''Totally'', ''ingredient'', '','', ''x?'']" by code_simp
  have a1: "tokenizeInput ''Geralt brewsX Black Blood''
              = whitespace_comma_split ''Geralt brewsX Black Blood''"
    using extended_keyword_generic_fallback [OF h1] by (rule conjunct2)
  have a2: "tokenizeInput ''Totally ingredient, x?'' = whitespace_comma_split ''Totally ingredient, x?''"
    using extended_keyword_generic_fallback [OF h2] by (rule conjunct2)
  have a3: "tokenizeInput ''Totally ingredient, x?'' = [''Totally'', ''ingredient'', '','', ''x?'']"
    by (simp only: a2 s2)
  show ?thesis by (intro conjI) (rule h1 a1 s1 h2 a3)+
qed

subsection \<open>Stored quantities\<close>

































subsection \<open>The verdict does not depend on the registries\<close>







subsection \<open>Re-tokenizing the joined tokens\<close>







lemma join_tokens_Cons2:
  "v \<noteq> '','' \<Longrightarrow> join_tokens (u # v # rest) = u @ CHR '' '' # join_tokens (v # rest)"
  by simp











lemma list5: "length t = 5 \<Longrightarrow> t = [t ! 0, t ! 1, t ! 2, t ! 3, t ! 4]"
  by (auto simp: numeral_eq_Suc length_Suc_conv)


lemma list8: "length t = 8 \<Longrightarrow> t = [t ! 0, t ! 1, t ! 2, t ! 3, t ! 4, t ! 5, t ! 6, t ! 7]"
  by (auto simp: numeral_eq_Suc length_Suc_conv)












lemma alpha_not_space: "isalpha c \<Longrightarrow> \<not> isspace c \<and> c \<noteq> CHR ''?'' \<and> c \<noteq> CHR '',''"
  by (auto simp: isalpha_def isspace_def)





















lemma name_chars_ok_set: "name_chars_ok b m \<Longrightarrow> c \<in> set m \<Longrightarrow> c = CHR '' '' \<or> isalpha c"
  by (induction m arbitrary: b) (auto split: if_splits)

lemma potion_name:
  assumes "name_chars_ok b m"
  shows "CHR ''?'' \<notin> set m" "m \<noteq> '',''" "m \<noteq> ''?''"
proof -
  show q: "CHR ''?'' \<notin> set m"
    using name_chars_ok_set [OF assms, of "CHR ''?''"] alpha_not_space [of "CHR ''?''"] by auto
  show "m \<noteq> '',''"
    using name_chars_ok_set [OF assms, of "CHR '',''"] alpha_not_space [of "CHR '',''"] by auto
  show "m \<noteq> ''?''" using q by auto
qed


















































end
